theory Spec2Isabelle
  imports Complex_Main
begin

section \<open>The Lufthansa API client of travel\_buddy/tools/lufthansa\_api.py\<close>

text \<open>
  The development embeds \<^verbatim>\<open>LufthansaAPIClient\<close>: the token cache, the authenticated
  request, the five flight operations and the response parsers.

  Conventions of the embedding.
  \<^item> A value decoded from JSON is a \<open>json\<close>. A Python dict is an association list read
    with \<open>map_of\<close>; Python's \<open>None\<close> is \<open>JNull\<close>.
  \<^item> A Python \<open>str\<close> is a \<open>string\<close>; a character outside ASCII stands as its UTF-8
    bytes. No function here looks inside a string it is given.
  \<^item> Time stamps and JSON floats are real numbers: rounding and the special values (NaN,
    infinities) of the floating-point type are not modelled. The one exception a float
    operation of the client can raise, on an integer too large to convert, is modelled.
  \<^item> An exception is a value \<open>Inl e\<close> of the result type \<open>exn + 'a\<close>.
  \<^item> Logging is left out: it changes no value the client computes.
\<close>

subsection \<open>JSON values as Python sees them\<close>

datatype json =
    JNull
  | JBool bool
  | JInt int
  | JFloat real
  | JStr string
  | JList "json list"
  | JObj "(string \<times> json) list"

text \<open>Python's truth value of an object, as \<^verbatim>\<open>if x\<close> and \<^verbatim>\<open>not x\<close> test it.\<close>

fun truthy :: "json \<Rightarrow> bool" where
  "truthy JNull = False"
| "truthy (JBool b) = b"
| "truthy (JInt i) = (i \<noteq> 0)"
| "truthy (JFloat x) = (x \<noteq> 0)"
| "truthy (JStr s) = (s \<noteq> [])"
| "truthy (JList xs) = (xs \<noteq> [])"
| "truthy (JObj kvs) = (kvs \<noteq> [])"

fun type_name :: "json \<Rightarrow> string" where
  "type_name JNull = ''NoneType''"
| "type_name (JBool b) = ''bool''"
| "type_name (JInt i) = ''int''"
| "type_name (JFloat x) = ''float''"
| "type_name (JStr s) = ''str''"
| "type_name (JList xs) = ''list''"
| "type_name (JObj kvs) = ''dict''"

subsection \<open>HTTP responses and exceptions\<close>

text \<open>
  What the client reads of a \<^verbatim>\<open>requests.Response\<close>: the status code, the body text and
  the value \<^verbatim>\<open>response.json()\<close> decodes (\<open>None\<close> when the body is not JSON and the
  call raises).
\<close>

record response =
  status_code :: nat
  body_text :: string
  json_body :: "json option"

text \<open>
  The exceptions the client meets. \<open>HTTPError\<close> carries the response, as
  \<^verbatim>\<open>e.response\<close> does. \<open>RequestException\<close> is any other failure of the transport
  (connection error, timeout); \<open>JSONDecodeError\<close> is the one \<^verbatim>\<open>response.json()\<close> raises,
  which \<^verbatim>\<open>requests\<close> derives from \<^verbatim>\<open>RequestException\<close>. \<open>RuntimeError e\<close> is the
  \<^verbatim>\<open>RuntimeError\<close> whose message is "Lufthansa API authentication failed: " followed by
  the text of \<open>e\<close>. \<open>KeyError\<close> carries the missing key, the others their message
  (the wording of CPython 3.12; no result below depends on it).
\<close>

datatype exn =
    HTTPError response
  | RequestException string
  | JSONDecodeError
  | RuntimeError exn
  | KeyError string
  | TypeError string
  | AttributeError string
  | IndexError string
  | OverflowError string

fun is_RequestException :: "exn \<Rightarrow> bool" where
  "is_RequestException (HTTPError r) = True"
| "is_RequestException (RequestException m) = True"
| "is_RequestException JSONDecodeError = True"
| "is_RequestException e = False"

text \<open>Sequencing: the second step runs on the value of the first unless that one raised.\<close>

definition and_then :: "exn + 'a \<Rightarrow> ('a \<Rightarrow> exn + 'b) \<Rightarrow> exn + 'b" where
  "and_then m f = (case m of Inl e \<Rightarrow> Inl e | Inr v \<Rightarrow> f v)"

subsection \<open>Text of values\<close>

definition digit_char :: "nat \<Rightarrow> char" where
  "digit_char d = ''0123456789'' ! d"

fun nat_str :: "nat \<Rightarrow> string" where
  "nat_str n = (if n < 10 then [digit_char n] else nat_str (n div 10) @ [digit_char (n mod 10)])"

declare nat_str.simps [simp del]

definition int_str :: "int \<Rightarrow> string" where
  "int_str i = (if i < 0 then CHR ''-'' # nat_str (nat (- i)) else nat_str (nat i))"

text \<open>
  \<^verbatim>\<open>str(v)\<close>, which an f-string applies to a value it interpolates. The text of a string
  is the string; \<open>None\<close>, booleans and integers are written out. The text Python gives a
  float, a list or a dict is not computed here: it is the parameter \<open>R\<close>.
\<close>

definition py_str :: "(json \<Rightarrow> string) \<Rightarrow> json \<Rightarrow> string" where
  "py_str R v =
     (case v of
        JStr s \<Rightarrow> s
      | JNull \<Rightarrow> ''None''
      | JBool b \<Rightarrow> (if b then ''True'' else ''False'')
      | JInt i \<Rightarrow> int_str i
      | _ \<Rightarrow> R v)"

subsection \<open>Dictionary access\<close>

text \<open>
  \<^verbatim>\<open>x.get(k, d)\<close>. Of the JSON values only a dict has the method; on any other value
  Python raises \<^verbatim>\<open>AttributeError\<close>.
\<close>

definition no_get :: "json \<Rightarrow> exn" where
  "no_get v = AttributeError ([CHR 0x27] @ type_name v @ [CHR 0x27] @ '' object has no attribute '' @ [CHR 0x27] @ ''get'' @ [CHR 0x27])"

fun py_get :: "json \<Rightarrow> string \<Rightarrow> json \<Rightarrow> exn + json" where
  "py_get (JObj kvs) k d = Inr (case map_of kvs k of Some v \<Rightarrow> v | None \<Rightarrow> d)"
| "py_get v k d = Inl (no_get v)"

text \<open>\<^verbatim>\<open>x.get(k1, d1).get(k2, d2)\<close>\<close>

definition py_get2 :: "json \<Rightarrow> string \<Rightarrow> json \<Rightarrow> string \<Rightarrow> json \<Rightarrow> exn + json" where
  "py_get2 x k1 d1 k2 d2 = and_then (py_get x k1 d1) (\<lambda>y. py_get y k2 d2)"

subsection \<open>Status codes\<close>

definition status_map :: "(string \<times> string) list" where
  "status_map =
     [(''CD'', ''Cancelled''),
      (''DP'', ''Departed''),
      (''LD'', ''Landed''),
      (''RT'', ''Rerouted''),
      (''DV'', ''Diverted''),
      (''HD'', ''On Hold''),
      (''FE'', ''Flight Early''),
      (''NI'', ''Next Information''),
      (''OT'', ''On Time''),
      (''DL'', ''Delayed''),
      (''NO'', ''No Status'')]"

text \<open>
  \<^verbatim>\<open>status_map.get(code, f"Unknown ({code})")\<close>. The annotation says \<open>code\<close> is a string,
  but the parser passes whatever the payload holds. Looking a list or a dict up in a dict
  raises \<^verbatim>\<open>TypeError\<close> (they cannot be hashed); any other value that is not a key of the
  table gives the default.
\<close>

definition unhashable :: "json \<Rightarrow> exn" where
  "unhashable v = TypeError (''unhashable type: '' @ [CHR 0x27] @ type_name v @ [CHR 0x27])"

definition get_status_description :: "(json \<Rightarrow> string) \<Rightarrow> json \<Rightarrow> exn + string" where
  "get_status_description R code =
     (let dflt = ''Unknown ('' @ py_str R code @ '')'' in
      case code of
        JList xs \<Rightarrow> Inl (unhashable code)
      | JObj kvs \<Rightarrow> Inl (unhashable code)
      | JStr c \<Rightarrow> Inr (case map_of status_map c of Some d \<Rightarrow> d | None \<Rightarrow> dflt)
      | _ \<Rightarrow> Inr dflt)"

subsection \<open>Response parsers\<close>

text \<open>
  The text \<^verbatim>\<open>{e}\<close> of an exception that \<^verbatim>\<open>except (KeyError, TypeError) as e\<close> catches;
  \<open>None\<close> for an exception the clause lets through. The text of a \<^verbatim>\<open>KeyError\<close> is
  the key in quotes.
\<close>

fun parse_error_text :: "exn \<Rightarrow> string option" where
  "parse_error_text (KeyError k) = Some ([CHR 0x27] @ k @ [CHR 0x27])"
| "parse_error_text (TypeError m) = Some m"
| "parse_error_text e = None"

text \<open>\<^verbatim>\<open>flights[0] if isinstance(flights, list) else flights\<close>\<close>

definition first_flight :: "json \<Rightarrow> exn + json" where
  "first_flight flights =
     (case flights of
        JList xs \<Rightarrow> (case xs of [] \<Rightarrow> Inl (IndexError ''list index out of range'') | x # rest \<Rightarrow> Inr x)
      | _ \<Rightarrow> Inr flights)"

text \<open>
  The six entries that \<^verbatim>\<open>_parse_flight_status\<close> writes for \<^verbatim>\<open>departure\<close> and again
  for \<^verbatim>\<open>arrival\<close> (lines 323 to 330 and 331 to 338), read in the order of the source.
\<close>

definition stop_details :: "json \<Rightarrow> exn + json" where
  "stop_details stop =
     and_then (py_get stop ''AirportCode'' (JStr [])) (\<lambda>airport.
     and_then (py_get2 stop ''Terminal'' (JObj []) ''Name'' (JStr [])) (\<lambda>terminal.
     and_then (py_get2 stop ''Terminal'' (JObj []) ''Gate'' (JStr [])) (\<lambda>gate.
     and_then (py_get2 stop ''ScheduledTimeLocal'' (JObj []) ''DateTime'' (JStr [])) (\<lambda>scheduled.
     and_then (py_get2 stop ''EstimatedTimeLocal'' (JObj []) ''DateTime'' (JStr [])) (\<lambda>estimated.
     and_then (py_get2 stop ''ActualTimeLocal'' (JObj []) ''DateTime'' (JStr [])) (\<lambda>actual.
     Inr (JObj
       [(''airport'', airport),
        (''terminal'', terminal),
        (''gate'', gate),
        (''scheduled'', scheduled),
        (''estimated'', estimated),
        (''actual'', actual)])))))))"

text \<open>
  Lines 313 to 343 of \<^verbatim>\<open>_parse_flight_status\<close>: the result built from one flight.
  \<open>JStr []\<close> is the empty string that most lookups default to.
\<close>

definition flight_status_fields :: "(json \<Rightarrow> string) \<Rightarrow> json \<Rightarrow> exn + json" where
  "flight_status_fields R flight =
     and_then (py_get flight ''Departure'' (JObj [])) (\<lambda>departure.
     and_then (py_get flight ''Arrival'' (JObj [])) (\<lambda>arrival.
     and_then (py_get flight ''FlightStatus'' (JObj [])) (\<lambda>status.
     and_then (py_get flight ''Equipment'' (JObj [])) (\<lambda>equipment.
     and_then (py_get2 flight ''MarketingCarrier'' (JObj []) ''FlightNumber'' (JStr [])) (\<lambda>number.
     and_then (py_get2 flight ''MarketingCarrier'' (JObj []) ''AirlineID'' (JStr [])) (\<lambda>airline.
     and_then (py_get status ''Code'' (JStr ''unknown'')) (\<lambda>status_value.
     and_then (py_get status ''Code'' (JStr [])) (\<lambda>code.
     and_then (get_status_description R code) (\<lambda>description.
     and_then (stop_details departure) (\<lambda>departure_details.
     and_then (stop_details arrival) (\<lambda>arrival_details.
     and_then (py_get equipment ''AircraftCode'' (JStr [])) (\<lambda>aircraft_code.
     and_then (py_get equipment ''AircraftRegistration'' (JStr [])) (\<lambda>registration.
     Inr (JObj
       [(''flight'', number),
        (''airline'', airline),
        (''status'', status_value),
        (''status_description'', JStr description),
        (''departure'', departure_details),
        (''arrival'', arrival_details),
        (''aircraft'', JObj [(''code'', aircraft_code), (''registration'', registration)])]))))))))))))))"

text \<open>The body of the \<^verbatim>\<open>try\<close> of \<^verbatim>\<open>_parse_flight_status\<close>.\<close>

definition parse_flight_status_try :: "(json \<Rightarrow> string) \<Rightarrow> json \<Rightarrow> exn + json" where
  "parse_flight_status_try R response =
     and_then (py_get response ''FlightStatusResource'' (JObj [])) (\<lambda>flight_data.
     and_then (py_get2 flight_data ''Flights'' (JObj []) ''Flight'' (JList [])) (\<lambda>flights.
     if \<not> truthy flights then Inr (JObj [(''error'', JStr ''No flight data in response'')])
     else and_then (first_flight flights) (flight_status_fields R)))"

text \<open>\<^verbatim>\<open>_parse_flight_status\<close>: the body under its \<^verbatim>\<open>except (KeyError, TypeError)\<close>.\<close>

definition parse_flight_status :: "(json \<Rightarrow> string) \<Rightarrow> json \<Rightarrow> exn + json" where
  "parse_flight_status R response =
     (case parse_flight_status_try R response of
        Inr v \<Rightarrow> Inr v
      | Inl e \<Rightarrow>
          (case parse_error_text e of
             Some m \<Rightarrow> Inr (JObj [(''error'', JStr (''Failed to parse flight status: '' @ m)), (''raw'', response)])
           | None \<Rightarrow> Inl e))"

definition parse_single_flight :: "(json \<Rightarrow> string) \<Rightarrow> json \<Rightarrow> exn + json" where
  "parse_single_flight R flight =
     and_then (py_get flight ''Departure'' (JObj [])) (\<lambda>departure.
     and_then (py_get flight ''Arrival'' (JObj [])) (\<lambda>arrival.
     and_then (py_get2 flight ''MarketingCarrier'' (JObj []) ''AirlineID'' (JStr [])) (\<lambda>airline.
     and_then (py_get2 flight ''MarketingCarrier'' (JObj []) ''FlightNumber'' (JStr [])) (\<lambda>number.
     and_then (py_get2 flight ''FlightStatus'' (JObj []) ''Code'' (JStr [])) (\<lambda>status.
     and_then (py_get2 departure ''ScheduledTimeLocal'' (JObj []) ''DateTime'' (JStr [])) (\<lambda>departure_time.
     and_then (py_get2 arrival ''ScheduledTimeLocal'' (JObj []) ''DateTime'' (JStr [])) (\<lambda>arrival_time.
     and_then (py_get departure ''AirportCode'' (JStr [])) (\<lambda>origin.
     and_then (py_get arrival ''AirportCode'' (JStr [])) (\<lambda>destination.
     Inr (JObj
       [(''flight'', JStr (py_str R airline @ py_str R number)),
        (''status'', status),
        (''departure_time'', departure_time),
        (''arrival_time'', arrival_time),
        (''origin'', origin),
        (''destination'', destination)]))))))))))"

text \<open>The loop of \<^verbatim>\<open>_parse_route_flights\<close>: it appends in order and stops where a flight raises.\<close>

fun parse_each :: "(json \<Rightarrow> string) \<Rightarrow> json list \<Rightarrow> exn + json list" where
  "parse_each R [] = Inr []"
| "parse_each R (flight # rest) =
     and_then (parse_single_flight R flight) (\<lambda>p.
     and_then (parse_each R rest) (\<lambda>ps. Inr (p # ps)))"

text \<open>Lines 355 and 356: a value that is not a list becomes a list of one, or of none when it is false.\<close>

definition as_flight_list :: "json \<Rightarrow> json list" where
  "as_flight_list flights =
     (case flights of
        JList xs \<Rightarrow> xs
      | _ \<Rightarrow> (if truthy flights then [flights] else []))"

definition parse_route_flights_try :: "(json \<Rightarrow> string) \<Rightarrow> json \<Rightarrow> exn + json" where
  "parse_route_flights_try R response =
     and_then (py_get response ''FlightStatusResource'' (JObj [])) (\<lambda>flight_data.
     and_then (py_get2 flight_data ''Flights'' (JObj []) ''Flight'' (JList [])) (\<lambda>flights.
     and_then (parse_each R (as_flight_list flights)) (\<lambda>parsed_flights.
     Inr (JObj [(''flights'', JList parsed_flights), (''count'', JInt (int (length parsed_flights)))]))))"

definition parse_route_flights :: "(json \<Rightarrow> string) \<Rightarrow> json \<Rightarrow> exn + json" where
  "parse_route_flights R response =
     (case parse_route_flights_try R response of
        Inr v \<Rightarrow> Inr v
      | Inl e \<Rightarrow>
          (case parse_error_text e of
             Some m \<Rightarrow> Inr (JObj [(''flights'', JList []), (''error'', JStr m)])
           | None \<Rightarrow> Inl e))"

subsection \<open>The world outside the client\<close>

text \<open>
  A call of \<^verbatim>\<open>requests\<close> either returns a response or raises a
  \<^verbatim>\<open>RequestException\<close> of the transport (\<open>Failure\<close>, with its text).
\<close>

datatype reply = Reply response | Failure string

text \<open>
  What one operation of the client reads from outside, in the order it reads it: the clock
  at the validity test of line 57, the reply to the token request, the clock when the
  expiry is stored at line 81, and the reply to the data request. A value is read only if
  the run reaches its place.
\<close>

record env =
  clock_check :: real
  auth_reply :: reply
  clock_store :: real
  data_reply :: reply

text \<open>
  The HTTP calls the client issues, in order: the POST to the token endpoint with its URL
  and form fields, and the data request with its method, URL, headers and query parameters.
\<close>

datatype event =
    AuthCall string "(string \<times> string) list"
  | DataCall string string "(string \<times> string) list" "(string \<times> json) list option"

fun is_auth :: "event \<Rightarrow> bool" where
  "is_auth (AuthCall url form) = True"
| "is_auth (DataCall method url headers params) = False"

text \<open>
  \<^verbatim>\<open>response.raise_for_status()\<close> of the \<^verbatim>\<open>requests\<close> library raises
  \<^verbatim>\<open>HTTPError\<close> for the status codes 400 to 599 and returns for every other one.
\<close>

definition raise_for_status :: "response \<Rightarrow> exn + unit" where
  "raise_for_status r =
     (if 400 \<le> status_code r \<and> status_code r < 600 then Inl (HTTPError r) else Inr ())"

definition response_json :: "response \<Rightarrow> exn + json" where
  "response_json r = (case json_body r of None \<Rightarrow> Inl JSONDecodeError | Some v \<Rightarrow> Inr v)"

subsection \<open>The client and its token cache\<close>

record client =
  client_id :: string
  client_secret :: string
  base_url :: string
  auth_url :: string
  access_token :: json
  token_expires_at :: real

text \<open>\<^verbatim>\<open>__init__\<close>, with the four values of the configuration as arguments.\<close>

definition init :: "string \<Rightarrow> string \<Rightarrow> string \<Rightarrow> string \<Rightarrow> client" where
  "init cid secret base auth =
     \<lparr>client_id = cid, client_secret = secret, base_url = base, auth_url = auth,
      access_token = JNull, token_expires_at = 0\<rparr>"

text \<open>
  \<^verbatim>\<open>token_data["access_token"]\<close>: a dict without the key raises \<^verbatim>\<open>KeyError\<close>, a value
  that is not a dict raises \<^verbatim>\<open>TypeError\<close>.
\<close>

definition py_subscript :: "json \<Rightarrow> string \<Rightarrow> exn + json" where
  "py_subscript x k =
     (case x of
        JObj kvs \<Rightarrow> (case map_of kvs k of Some v \<Rightarrow> Inr v | None \<Rightarrow> Inl (KeyError k))
      | JList xs \<Rightarrow> Inl (TypeError ''list indices must be integers or slices, not str'')
      | JStr s \<Rightarrow> Inl (TypeError (''string indices must be integers, not '' @ [CHR 0x27] @ ''str'' @ [CHR 0x27]))
      | _ \<Rightarrow> Inl (TypeError ([CHR 0x27] @ type_name x @ [CHR 0x27] @ '' object is not subscriptable'')))"

text \<open>
  An integer that Python cannot convert to a float: its rounding to the nearest double
  is beyond the largest one, which is the case from \<open>2 ^ 1024 - 2 ^ 970\<close> on.
\<close>

definition float_overflow :: "int \<Rightarrow> bool" where
  "float_overflow i = (2 ^ 1024 - 2 ^ 970 \<le> \<bar>i\<bar>)"

text \<open>
  \<^verbatim>\<open>time.time() + expires_in\<close>: a number is added (a boolean counts as 0 or 1). An
  integer is converted to a float first, which raises \<^verbatim>\<open>OverflowError\<close> when it is
  too large. Any value that is not a number raises \<^verbatim>\<open>TypeError\<close>.
\<close>

definition add_seconds :: "real \<Rightarrow> json \<Rightarrow> exn + real" where
  "add_seconds t v =
     (case v of
        JInt i \<Rightarrow>
          (if float_overflow i then Inl (OverflowError ''int too large to convert to float'')
           else Inr (t + real_of_int i))
      | JFloat x \<Rightarrow> Inr (t + x)
      | JBool b \<Rightarrow> Inr (t + (if b then 1 else 0))
      | _ \<Rightarrow> Inl (TypeError (''unsupported operand type(s) for +: '' @ [CHR 0x27] @ ''float'' @ [CHR 0x27]
                  @ '' and '' @ [CHR 0x27] @ type_name v @ [CHR 0x27])))"

definition auth_call :: "client \<Rightarrow> event" where
  "auth_call st =
     AuthCall (auth_url st)
       [(''client_id'', client_id st),
        (''client_secret'', client_secret st),
        (''grant_type'', ''client_credentials'')]"

text \<open>
  The body of the \<^verbatim>\<open>try\<close> of \<^verbatim>\<open>_get_access_token\<close> (lines 63 to 84). The token is
  assigned at line 78, before the expiry is computed: a failure after that line leaves
  the new token in the cache beside the old expiry.
\<close>

definition refresh_token :: "env \<Rightarrow> client \<Rightarrow> (exn + json) \<times> client \<times> event list" where
  "refresh_token env st =
     (let ev = [auth_call st] in
      case auth_reply env of
        Failure m \<Rightarrow> (Inl (RequestException m), st, ev)
      | Reply r \<Rightarrow>
          (case and_then (raise_for_status r) (\<lambda>u. response_json r) of
             Inl e \<Rightarrow> (Inl e, st, ev)
           | Inr token_data \<Rightarrow>
               (case py_subscript token_data ''access_token'' of
                  Inl e \<Rightarrow> (Inl e, st, ev)
                | Inr tok \<Rightarrow>
                    (let st1 = st\<lparr>access_token := tok\<rparr> in
                     case and_then (py_get token_data ''expires_in'' (JInt 36000)) (add_seconds (clock_store env)) of
                       Inl e \<Rightarrow> (Inl e, st1, ev)
                     | Inr t \<Rightarrow> (Inr tok, st1\<lparr>token_expires_at := t\<rparr>, ev)))))"

text \<open>
  \<^verbatim>\<open>_get_access_token\<close>. The cached token is returned when it is true for Python and the
  clock is more than 60 seconds before the expiry; otherwise the token is refreshed, and
  a \<^verbatim>\<open>RequestException\<close> of the refresh is raised again as \<^verbatim>\<open>RuntimeError\<close>.
\<close>

definition get_access_token :: "env \<Rightarrow> client \<Rightarrow> (exn + json) \<times> client \<times> event list" where
  "get_access_token env st =
     (if truthy (access_token st) \<and> clock_check env < token_expires_at st - 60
      then (Inr (access_token st), st, [])
      else
        (case refresh_token env st of
           (Inl e, st', ev) \<Rightarrow> ((if is_RequestException e then Inl (RuntimeError e) else Inl e), st', ev)
         | (Inr tok, st', ev) \<Rightarrow> (Inr tok, st', ev)))"

subsection \<open>Requests\<close>

definition request_headers :: "(json \<Rightarrow> string) \<Rightarrow> json \<Rightarrow> (string \<times> string) list" where
  "request_headers R token =
     [(''Authorization'', ''Bearer '' @ py_str R token),
      (''Accept'', ''application/json'')]"

text \<open>
  \<^verbatim>\<open>_make_request\<close>. Both \<^verbatim>\<open>except\<close> clauses log and raise the exception again, so
  the result of the \<^verbatim>\<open>try\<close> is the result of the method.
\<close>

definition make_request ::
  "(json \<Rightarrow> string) \<Rightarrow> env \<Rightarrow> client \<Rightarrow> string \<Rightarrow> string \<Rightarrow> (string \<times> json) list option
     \<Rightarrow> (exn + json) \<times> client \<times> event list" where
  "make_request R env st method endpoint params =
     (case get_access_token env st of
        (Inl e, st', ev) \<Rightarrow> (Inl e, st', ev)
      | (Inr token, st', ev) \<Rightarrow>
          (let url = base_url st' @ endpoint;
               headers = request_headers R token;
               ev' = ev @ [DataCall method url headers params]
           in case data_reply env of
                Failure m \<Rightarrow> (Inl (RequestException m), st', ev')
              | Reply r \<Rightarrow> (and_then (raise_for_status r) (\<lambda>u. response_json r), st', ev')))"

subsection \<open>Operations\<close>

text \<open>
  The handler \<^verbatim>\<open>except requests.HTTPError as e\<close> of the three operations that have one:
  status 404 gives the value \<open>not_found\<close>, any other exception is raised again.
\<close>

definition on_404 :: "json \<Rightarrow> exn + json \<Rightarrow> exn + json" where
  "on_404 not_found res =
     (case res of
        Inl (HTTPError r) \<Rightarrow> (if status_code r = 404 then Inr not_found else Inl (HTTPError r))
      | _ \<Rightarrow> res)"

definition get_flight_status ::
  "(json \<Rightarrow> string) \<Rightarrow> env \<Rightarrow> client \<Rightarrow> string \<Rightarrow> string \<Rightarrow> (exn + json) \<times> client \<times> event list" where
  "get_flight_status R env st flight_number date =
     (let endpoint = ''/operations/flightstatus/'' @ flight_number @ ''/'' @ date in
      case make_request R env st ''GET'' endpoint None of
        (res, st', ev) \<Rightarrow>
          (on_404 (JObj [(''error'', JStr (''Flight '' @ flight_number @ '' not found for '' @ date))])
             (and_then res (parse_flight_status R)),
           st', ev))"

text \<open>The arrow U+2192 of the two route messages, as its UTF-8 bytes.\<close>

definition arrow :: string where
  "arrow = [CHR 0xE2, CHR 0x86, CHR 0x92]"

definition get_flight_status_by_route ::
  "(json \<Rightarrow> string) \<Rightarrow> env \<Rightarrow> client \<Rightarrow> string \<Rightarrow> string \<Rightarrow> string
     \<Rightarrow> (exn + json) \<times> client \<times> event list" where
  "get_flight_status_by_route R env st origin destination date =
     (let endpoint = ''/operations/flightstatus/route/'' @ origin @ ''/'' @ destination @ ''/'' @ date in
      case make_request R env st ''GET'' endpoint None of
        (res, st', ev) \<Rightarrow>
          (on_404 (JObj [(''flights'', JList []),
                         (''message'', JStr (''No flights found '' @ origin @ arrow @ destination @ '' on '' @ date))])
             (and_then res (parse_route_flights R)),
           st', ev))"

definition get_arrivals ::
  "(json \<Rightarrow> string) \<Rightarrow> env \<Rightarrow> client \<Rightarrow> string \<Rightarrow> string \<Rightarrow> int \<Rightarrow> (exn + json) \<times> client \<times> event list" where
  "get_arrivals R env st airport from_time limit =
     (let endpoint = ''/operations/flightstatus/arrivals/'' @ airport @ ''/'' @ from_time in
      make_request R env st ''GET'' endpoint (Some [(''limit'', JInt limit)]))"

definition get_departures ::
  "(json \<Rightarrow> string) \<Rightarrow> env \<Rightarrow> client \<Rightarrow> string \<Rightarrow> string \<Rightarrow> int \<Rightarrow> (exn + json) \<times> client \<times> event list" where
  "get_departures R env st airport from_time limit =
     (let endpoint = ''/operations/flightstatus/departures/'' @ airport @ ''/'' @ from_time in
      make_request R env st ''GET'' endpoint (Some [(''limit'', JInt limit)]))"

definition get_schedules ::
  "(json \<Rightarrow> string) \<Rightarrow> env \<Rightarrow> client \<Rightarrow> string \<Rightarrow> string \<Rightarrow> string \<Rightarrow> bool
     \<Rightarrow> (exn + json) \<times> client \<times> event list" where
  "get_schedules R env st origin destination date direct_flights =
     (let endpoint = ''/operations/schedules/'' @ origin @ ''/'' @ destination @ ''/'' @ date;
          params = [(''directFlights'', JBool direct_flights)]
      in case make_request R env st ''GET'' endpoint (Some params) of
           (res, st', ev) \<Rightarrow>
             (on_404 (JObj [(''schedules'', JList []), (''message'', JStr ''No schedules found'')]) res,
              st', ev))"

definition get_airport ::
  "(json \<Rightarrow> string) \<Rightarrow> env \<Rightarrow> client \<Rightarrow> string \<Rightarrow> (exn + json) \<times> client \<times> event list" where
  "get_airport R env st airport_code =
     make_request R env st ''GET'' (''/references/airports/'' @ airport_code) None"

definition get_airline ::
  "(json \<Rightarrow> string) \<Rightarrow> env \<Rightarrow> client \<Rightarrow> string \<Rightarrow> (exn + json) \<times> client \<times> event list" where
  "get_airline R env st airline_code =
     make_request R env st ''GET'' (''/references/airlines/'' @ airline_code) None"

definition get_aircraft ::
  "(json \<Rightarrow> string) \<Rightarrow> env \<Rightarrow> client \<Rightarrow> string \<Rightarrow> (exn + json) \<times> client \<times> event list" where
  "get_aircraft R env st aircraft_code =
     make_request R env st ''GET'' (''/references/aircraft/'' @ aircraft_code) None"

text \<open>
  The public methods of the client that request data, with their arguments, and the call
  of one of them. This is the way the statements below range over every operation.
\<close>

datatype operation =
    FlightStatus string string
  | FlightStatusByRoute string string string
  | Arrivals string string int
  | Departures string string int
  | Schedules string string string bool
  | Airport string
  | Airline string
  | Aircraft string

fun perform :: "(json \<Rightarrow> string) \<Rightarrow> env \<Rightarrow> client \<Rightarrow> operation \<Rightarrow> (exn + json) \<times> client \<times> event list" where
  "perform R env st (FlightStatus flight_number date) = get_flight_status R env st flight_number date"
| "perform R env st (FlightStatusByRoute origin destination date) =
     get_flight_status_by_route R env st origin destination date"
| "perform R env st (Arrivals airport from_time limit) = get_arrivals R env st airport from_time limit"
| "perform R env st (Departures airport from_time limit) = get_departures R env st airport from_time limit"
| "perform R env st (Schedules origin destination date direct_flights) =
     get_schedules R env st origin destination date direct_flights"
| "perform R env st (Airport code) = get_airport R env st code"
| "perform R env st (Airline code) = get_airline R env st code"
| "perform R env st (Aircraft code) = get_aircraft R env st code"

text \<open>The three parts of what an operation gives: the result, the client after it, the calls made.\<close>

definition result_of :: "(exn + json) \<times> client \<times> event list \<Rightarrow> exn + json" where
  "result_of x = fst x"

definition client_after :: "(exn + json) \<times> client \<times> event list \<Rightarrow> client" where
  "client_after x = fst (snd x)"

definition calls_of :: "(exn + json) \<times> client \<times> event list \<Rightarrow> event list" where
  "calls_of x = snd (snd x)"

subsection \<open>Notions used to state the properties\<close>

text \<open>
  The token test of line 57: the cache holds a token (a value Python takes as true) and
  the clock is more than 60 seconds before its expiry.
\<close>

definition token_fresh :: "env \<Rightarrow> client \<Rightarrow> bool" where
  "token_fresh env st = (truthy (access_token st) \<and> clock_check env < token_expires_at st - 60)"

text \<open>
  The value of the field \<^verbatim>\<open>FlightStatusResource.Flights.Flight\<close> of a payload: \<open>None\<close>
  when the payload, the resource or \<^verbatim>\<open>Flights\<close> is not an object or lacks the next key.
\<close>

definition flight_field :: "json \<Rightarrow> json option" where
  "flight_field response =
     (case response of
        JObj r \<Rightarrow>
          (case map_of r ''FlightStatusResource'' of
             Some (JObj fd) \<Rightarrow>
               (case map_of fd ''Flights'' of
                  Some (JObj fs) \<Rightarrow> map_of fs ''Flight''
                | _ \<Rightarrow> None)
           | _ \<Rightarrow> None)
      | _ \<Rightarrow> None)"

text \<open>
  A payload without flight data: an object in which, going down the path
  \<^verbatim>\<open>FlightStatusResource.Flights.Flight\<close> through objects, a key is missing, or the
  field is there and false for Python (an empty list, an empty object, \<open>None\<close>, ...).
\<close>

definition no_flight_data :: "json \<Rightarrow> bool" where
  "no_flight_data response =
     (case response of
        JObj r \<Rightarrow>
          (case map_of r ''FlightStatusResource'' of
             None \<Rightarrow> True
           | Some (JObj fd) \<Rightarrow>
               (case map_of fd ''Flights'' of
                  None \<Rightarrow> True
                | Some (JObj fs) \<Rightarrow>
                    (case map_of fs ''Flight'' of
                       None \<Rightarrow> True
                     | Some v \<Rightarrow> \<not> truthy v)
                | Some other \<Rightarrow> False)
           | Some other \<Rightarrow> False)
      | _ \<Rightarrow> False)"

text \<open>A reply with a status from 200 to 299 whose body decodes to the given payload.\<close>

definition ok_reply :: "reply \<Rightarrow> json \<Rightarrow> bool" where
  "ok_reply rp payload =
     (case rp of
        Reply r \<Rightarrow> 200 \<le> status_code r \<and> status_code r < 300 \<and> json_body r = Some payload
      | Failure m \<Rightarrow> False)"

text \<open>The data request is issued: the token step before it returned a token.\<close>

definition token_obtained :: "env \<Rightarrow> client \<Rightarrow> bool" where
  "token_obtained env st = (case fst (get_access_token env st) of Inr tok \<Rightarrow> True | Inl e \<Rightarrow> False)"

text \<open>
  The lifetime in seconds that a token reply states, in the words of the specification:
  the number under \<^verbatim>\<open>expires_in\<close>, and 36000 when the reply has no such entry. There
  is none when the entry is not a number, or is an integer too large for a float.
\<close>

definition lifetime :: "json option \<Rightarrow> real option" where
  "lifetime entry =
     (case entry of
        None \<Rightarrow> Some 36000
      | Some (JInt n) \<Rightarrow> (if \<bar>n\<bar> < 2 ^ 1024 - 2 ^ 970 then Some (real_of_int n) else None)
      | Some (JFloat x) \<Rightarrow> Some x
      | Some (JBool b) \<Rightarrow> Some (if b then 1 else 0)
      | Some other \<Rightarrow> None)"

text \<open>
  A reply of the token endpoint that grants a token for a number of seconds: a response
  whose status is not from 400 to 599 and whose body is a JSON object with the token
  under \<^verbatim>\<open>access_token\<close> and that lifetime.
\<close>

definition grants :: "reply \<Rightarrow> json \<Rightarrow> real \<Rightarrow> bool" where
  "grants rp tok secs =
     (case rp of
        Failure m \<Rightarrow> False
      | Reply ra \<Rightarrow>
          (status_code ra < 400 \<or> 600 \<le> status_code ra)
          \<and> (case json_body ra of
                Some (JObj kvs) \<Rightarrow>
                  map_of kvs ''access_token'' = Some tok
                  \<and> lifetime (map_of kvs ''expires_in'') = Some secs
              | _ \<Rightarrow> False))"

subsection \<open>Sample data\<close>

text \<open>A text function for the values whose text is a parameter, and a client as \<^verbatim>\<open>__init__\<close> leaves it.\<close>

definition R0 :: "json \<Rightarrow> string" where
  "R0 v = []"

definition client0 :: client where
  "client0 = init ''id'' ''secret'' ''https://api.lufthansa.com/v1'' ''https://api.lufthansa.com/v1/oauth/token''"

definition token_reply :: reply where
  "token_reply =
     Reply \<lparr>status_code = 200, body_text = [], json_body = Some (JObj [(''access_token'', JStr ''t1'')])\<rparr>"

definition not_found :: response where
  "not_found = \<lparr>status_code = 404, body_text = ''Not Found'', json_body = None\<rparr>"

text \<open>A run in which the token request succeeds and the data request is answered with 404.\<close>

definition env404 :: env where
  "env404 = \<lparr>clock_check = 0, auth_reply = token_reply, clock_store = 100, data_reply = Reply not_found\<rparr>"

text \<open>A run in which the token request succeeds and the data request is answered with 500.\<close>

definition server_error :: response where
  "server_error = \<lparr>status_code = 500, body_text = ''Internal Server Error'', json_body = None\<rparr>"

definition env500 :: env where
  "env500 = \<lparr>clock_check = 0, auth_reply = token_reply, clock_store = 100, data_reply = Reply server_error\<rparr>"

text \<open>
  A payload whose field \<^verbatim>\<open>FlightStatusResource.Flights.Flight\<close> is the given value, and a
  run in which the token request succeeds and the data request is answered with status
  200 and the given payload.
\<close>

definition with_flight :: "json \<Rightarrow> json" where
  "with_flight v = JObj [(''FlightStatusResource'', JObj [(''Flights'', JObj [(''Flight'', v)])])]"

definition env_ok :: "json \<Rightarrow> env" where
  "env_ok payload =
     \<lparr>clock_check = 0, auth_reply = token_reply, clock_store = 100,
      data_reply = Reply \<lparr>status_code = 200, body_text = [], json_body = Some payload\<rparr>\<rparr>"

text \<open>
  Malformed payloads: a flight whose status code is a list, and a payload whose resource
  is \<open>None\<close>; the exception that \<^verbatim>\<open>None.get\<close> raises, the text of the
  \<^verbatim>\<open>TypeError\<close> that hashing a list raises.
\<close>

definition bad_code_fields :: "(string \<times> json) list" where
  "bad_code_fields = [(''FlightStatus'', JObj [(''Code'', JList [])])]"

definition bad_code_flight :: json where
  "bad_code_flight = JObj bad_code_fields"

definition null_resource :: json where
  "null_resource = JObj [(''FlightStatusResource'', JNull)]"

definition attribute_error_none :: exn where
  "attribute_error_none =
     AttributeError ([CHR 0x27] @ ''NoneType'' @ [CHR 0x27] @ '' object has no attribute '' @ [CHR 0x27] @ ''get'' @ [CHR 0x27])"

definition unhashable_list_text :: string where
  "unhashable_list_text = ''unhashable type: '' @ [CHR 0x27] @ ''list'' @ [CHR 0x27]"

text \<open>
  What the parsers give for a flight that is the empty object, and a flight with a
  carrier, a status and two airports with what they give for it.
\<close>

definition empty_stop :: json where
  "empty_stop =
     JObj [(''airport'', JStr []), (''terminal'', JStr []), (''gate'', JStr []),
           (''scheduled'', JStr []), (''estimated'', JStr []), (''actual'', JStr [])]"

definition empty_flight_result :: json where
  "empty_flight_result =
     JObj [(''flight'', JStr []), (''airline'', JStr []), (''status'', JStr ''unknown''),
           (''status_description'', JStr ''Unknown ()''),
           (''departure'', empty_stop), (''arrival'', empty_stop),
           (''aircraft'', JObj [(''code'', JStr []), (''registration'', JStr [])])]"

definition empty_route_entry :: json where
  "empty_route_entry =
     JObj [(''flight'', JStr []), (''status'', JStr []), (''departure_time'', JStr []),
           (''arrival_time'', JStr []), (''origin'', JStr []), (''destination'', JStr [])]"

definition sample_fields :: "(string \<times> json) list" where
  "sample_fields =
     [(''MarketingCarrier'', JObj [(''AirlineID'', JStr ''LH''), (''FlightNumber'', JStr ''456'')]),
      (''FlightStatus'', JObj [(''Code'', JStr ''DL'')]),
      (''Departure'', JObj [(''AirportCode'', JStr ''HAM'')]),
      (''Arrival'', JObj [(''AirportCode'', JStr ''JFK'')])]"

definition sample_route_entry :: json where
  "sample_route_entry =
     JObj [(''flight'', JStr ''LH456''), (''status'', JStr ''DL''), (''departure_time'', JStr []),
           (''arrival_time'', JStr []), (''origin'', JStr ''HAM''), (''destination'', JStr ''JFK'')]"

definition sample_flight_result :: json where
  "sample_flight_result =
     JObj [(''flight'', JStr ''456''), (''airline'', JStr ''LH''), (''status'', JStr ''DL''),
           (''status_description'', JStr ''Delayed''),
           (''departure'',
              JObj [(''airport'', JStr ''HAM''), (''terminal'', JStr []), (''gate'', JStr []),
                    (''scheduled'', JStr []), (''estimated'', JStr []), (''actual'', JStr [])]),
           (''arrival'',
              JObj [(''airport'', JStr ''JFK''), (''terminal'', JStr []), (''gate'', JStr []),
                    (''scheduled'', JStr []), (''estimated'', JStr []), (''actual'', JStr [])]),
           (''aircraft'', JObj [(''code'', JStr []), (''registration'', JStr [])])]"

text \<open>
  A client whose cached token is valid at the clock of the sample runs and one whose token
  has expired; the flight status operation used in the sample runs and the data call it
  issues with a given token.
\<close>

definition cached_client :: client where
  "cached_client = client0\<lparr>access_token := JStr ''t0'', token_expires_at := 1000\<rparr>"

definition expired_client :: client where
  "expired_client = client0\<lparr>access_token := JStr ''t0'', token_expires_at := 50\<rparr>"

definition status_op :: operation where
  "status_op = FlightStatus ''LH456'' ''2026-02-28''"

definition status_call :: "string \<Rightarrow> event" where
  "status_call token =
     DataCall ''GET'' ''https://api.lufthansa.com/v1/operations/flightstatus/LH456/2026-02-28''
       [(''Authorization'', ''Bearer '' @ token), (''Accept'', ''application/json'')] None"

text \<open>
  Runs that differ in the reply of the token endpoint: a token for an hour, a reply whose
  token is \<open>None\<close>, a token whose lifetime is negative, a refusal with status 401 and a
  lifetime too large for a float. The token request of the sample clients, and a payload
  whose \<^verbatim>\<open>Flights\<close> is \<open>None\<close>.
\<close>

definition env_auth :: "reply \<Rightarrow> env" where
  "env_auth rp =
     \<lparr>clock_check = 0, auth_reply = rp, clock_store = 100,
      data_reply = Reply \<lparr>status_code = 200, body_text = [], json_body = Some (JObj [])\<rparr>\<rparr>"

definition hour_reply :: reply where
  "hour_reply =
     Reply \<lparr>status_code = 200, body_text = [],
            json_body = Some (JObj [(''access_token'', JStr ''t1''), (''expires_in'', JInt 3600)])\<rparr>"

definition null_token_reply :: reply where
  "null_token_reply =
     Reply \<lparr>status_code = 200, body_text = [], json_body = Some (JObj [(''access_token'', JNull)])\<rparr>"

definition past_reply :: reply where
  "past_reply =
     Reply \<lparr>status_code = 200, body_text = [],
            json_body = Some (JObj [(''access_token'', JStr ''t1''), (''expires_in'', JInt (- 500))])\<rparr>"

definition denied_reply :: reply where
  "denied_reply = Reply \<lparr>status_code = 401, body_text = ''Unauthorized'', json_body = None\<rparr>"

definition huge_reply :: reply where
  "huge_reply =
     Reply \<lparr>status_code = 200, body_text = [],
            json_body = Some (JObj [(''access_token'', JStr ''t1''), (''expires_in'', JInt (2 ^ 1024))])\<rparr>"

definition token_call :: event where
  "token_call =
     AuthCall ''https://api.lufthansa.com/v1/oauth/token''
       [(''client_id'', ''id''), (''client_secret'', ''secret''), (''grant_type'', ''client_credentials'')]"

definition flights_null :: json where
  "flights_null = JObj [(''FlightStatusResource'', JObj [(''Flights'', JNull)])]"

section \<open>Properties\<close>

subsection \<open>Auxiliary facts\<close>

lemma and_then_Inl [simp]: "and_then (Inl e) f = Inl e"
  by (simp add: and_then_def)

lemma and_then_Inr [simp]: "and_then (Inr v) f = f v"
  by (simp add: and_then_def)

lemma no_overflow_36000 [simp]: "\<not> float_overflow 36000"
  by (simp add: float_overflow_def)

lemma token_obtainedE:
  assumes "token_obtained env st"
  obtains tok st' ev where "get_access_token env st = (Inr tok, st', ev)"
proof -
  obtain res st' ev where g: "get_access_token env st = (res, st', ev)"
    by (cases "get_access_token env st") auto
  with assms obtain tok where "res = Inr tok"
    by (cases res) (auto simp: token_obtained_def)
  with g that show thesis by blast
qed

lemma make_request_result:
  assumes "token_obtained env st"
  shows "result_of (make_request R env st method endpoint params) =
           (case data_reply env of
              Failure m \<Rightarrow> Inl (RequestException m)
            | Reply r \<Rightarrow> and_then (raise_for_status r) (\<lambda>u. response_json r))"
proof -
  from assms obtain tok st' ev where "get_access_token env st = (Inr tok, st', ev)"
    by (rule token_obtainedE)
  then show ?thesis
    by (simp add: make_request_def result_of_def Let_def split: reply.splits)
qed

lemma make_request_error_status:
  assumes "token_obtained env st" and "data_reply env = Reply r"
    and "400 \<le> status_code r" and "status_code r < 600"
  shows "result_of (make_request R env st method endpoint params) = Inl (HTTPError r)"
  using assms by (simp add: make_request_result raise_for_status_def)

lemma make_request_ok:
  assumes "token_obtained env st" and "ok_reply (data_reply env) payload"
  shows "result_of (make_request R env st method endpoint params) = Inr payload"
  using assms
  by (auto simp: make_request_result ok_reply_def raise_for_status_def response_json_def
           split: reply.splits)

lemma get_flight_status_result:
  "result_of (get_flight_status R env st flight_number date) =
     on_404 (JObj [(''error'', JStr (''Flight '' @ flight_number @ '' not found for '' @ date))])
       (and_then (result_of (make_request R env st ''GET''
          (''/operations/flightstatus/'' @ flight_number @ ''/'' @ date) None)) (parse_flight_status R))"
  by (simp add: get_flight_status_def result_of_def Let_def split: prod.splits)

lemma get_flight_status_by_route_result:
  "result_of (get_flight_status_by_route R env st origin destination date) =
     on_404 (JObj [(''flights'', JList []),
                   (''message'', JStr (''No flights found '' @ origin @ arrow @ destination @ '' on '' @ date))])
       (and_then (result_of (make_request R env st ''GET''
          (''/operations/flightstatus/route/'' @ origin @ ''/'' @ destination @ ''/'' @ date) None))
          (parse_route_flights R))"
  by (simp add: get_flight_status_by_route_def result_of_def Let_def split: prod.splits)

lemma get_schedules_result:
  "result_of (get_schedules R env st origin destination date direct_flights) =
     on_404 (JObj [(''schedules'', JList []), (''message'', JStr ''No schedules found'')])
       (result_of (make_request R env st ''GET''
          (''/operations/schedules/'' @ origin @ ''/'' @ destination @ ''/'' @ date)
          (Some [(''directFlights'', JBool direct_flights)])))"
  by (simp add: get_schedules_def result_of_def Let_def split: prod.splits)

lemma on_404_HTTPError:
  "on_404 v (Inl (HTTPError r)) = (if status_code r = 404 then Inr v else Inl (HTTPError r))"
  by (simp add: on_404_def)

lemma token_obtained_env404: "token_obtained env404 client0"
  by (simp add: token_obtained_def get_access_token_def refresh_token_def env404_def client0_def
      token_reply_def init_def raise_for_status_def response_json_def py_subscript_def
      add_seconds_def Let_def)

lemma token_obtained_env500: "token_obtained env500 client0"
  by (simp add: token_obtained_def get_access_token_def refresh_token_def env500_def client0_def
      token_reply_def init_def raise_for_status_def response_json_def py_subscript_def
      add_seconds_def Let_def)

lemma get_arrivals_result:
  "result_of (get_arrivals R env st airport from_time limit) =
     result_of (make_request R env st ''GET''
       (''/operations/flightstatus/arrivals/'' @ airport @ ''/'' @ from_time) (Some [(''limit'', JInt limit)]))"
  by (simp add: get_arrivals_def Let_def)

lemma get_departures_result:
  "result_of (get_departures R env st airport from_time limit) =
     result_of (make_request R env st ''GET''
       (''/operations/flightstatus/departures/'' @ airport @ ''/'' @ from_time) (Some [(''limit'', JInt limit)]))"
  by (simp add: get_departures_def Let_def)

lemma token_obtained_env_ok: "token_obtained (env_ok payload) client0"
  by (simp add: token_obtained_def get_access_token_def refresh_token_def env_ok_def client0_def
      token_reply_def init_def raise_for_status_def response_json_def py_subscript_def
      add_seconds_def Let_def)

lemma ok_reply_env_ok: "ok_reply (data_reply (env_ok payload)) payload"
  by (simp add: ok_reply_def env_ok_def)

lemma on_404_Inr [simp]: "on_404 v (Inr x) = Inr x"
  by (simp add: on_404_def)

lemma get_flight_status_ok:
  assumes "token_obtained env st" and "ok_reply (data_reply env) payload"
  shows "result_of (get_flight_status R env st flight_number date) =
           on_404 (JObj [(''error'', JStr (''Flight '' @ flight_number @ '' not found for '' @ date))])
             (parse_flight_status R payload)"
  using assms by (simp add: get_flight_status_result make_request_ok)

lemma get_flight_status_by_route_ok:
  assumes "token_obtained env st" and "ok_reply (data_reply env) payload"
  shows "result_of (get_flight_status_by_route R env st origin destination date) =
           on_404 (JObj [(''flights'', JList []),
                   (''message'', JStr (''No flights found '' @ origin @ arrow @ destination @ '' on '' @ date))])
             (parse_route_flights R payload)"
  using assms by (simp add: get_flight_status_by_route_result make_request_ok)

lemma no_flight_data_parse:
  assumes "no_flight_data response"
  shows "parse_flight_status_try R response = Inr (JObj [(''error'', JStr ''No flight data in response'')])"
proof -
  from assms obtain r where r: "response = JObj r"
    by (cases response) (auto simp: no_flight_data_def)
  show ?thesis
  proof (cases "map_of r ''FlightStatusResource''")
    case None
    with r show ?thesis by (simp add: parse_flight_status_try_def py_get2_def)
  next
    case x: (Some x)
    with assms r obtain fd where fd: "x = JObj fd"
      by (cases x) (auto simp: no_flight_data_def)
    show ?thesis
    proof (cases "map_of fd ''Flights''")
      case None
      with r x fd show ?thesis by (simp add: parse_flight_status_try_def py_get2_def)
    next
      case y: (Some y)
      with assms r x fd obtain fs where fs: "y = JObj fs"
        by (cases y) (auto simp: no_flight_data_def)
      show ?thesis
      proof (cases "map_of fs ''Flight''")
        case None
        with r x fd y fs show ?thesis by (simp add: parse_flight_status_try_def py_get2_def)
      next
        case (Some v)
        with assms r x fd y fs have "\<not> truthy v" by (simp add: no_flight_data_def)
        with Some r x fd y fs show ?thesis by (simp add: parse_flight_status_try_def py_get2_def)
      qed
    qed
  qed
qed

lemma and_then_InlE:
  assumes "and_then m f = Inl e"
  obtains "m = Inl e" | v where "m = Inr v" and "f v = Inl e"
  using assms by (cases m) auto

lemma py_get_error: "py_get x k d = Inl e \<Longrightarrow> \<exists>m. e = AttributeError m"
  by (cases x) (auto simp: no_get_def)

lemma py_get2_error: "py_get2 x k1 d1 k2 d2 = Inl e \<Longrightarrow> \<exists>m. e = AttributeError m"
  unfolding py_get2_def by (erule and_then_InlE) (auto dest: py_get_error)

lemma parse_single_flight_error:
  "parse_single_flight R flight = Inl e \<Longrightarrow> \<exists>m. e = AttributeError m"
  unfolding parse_single_flight_def
  by (elim and_then_InlE) (auto dest: py_get_error py_get2_error)

lemma parse_each_error: "parse_each R fs = Inl e \<Longrightarrow> \<exists>m. e = AttributeError m"
proof (induction fs arbitrary: e)
  case Nil
  then show ?case by simp
next
  case (Cons f fs)
  from Cons.prems show ?case
    by (auto elim!: and_then_InlE dest: parse_single_flight_error Cons.IH)
qed

lemma parse_route_flights_try_error:
  "parse_route_flights_try R response = Inl e \<Longrightarrow> \<exists>m. e = AttributeError m"
  unfolding parse_route_flights_try_def
  by (elim and_then_InlE) (auto dest: py_get_error py_get2_error parse_each_error)

lemma parse_route_flights_try_shape:
  assumes "parse_route_flights_try R response = Inr v"
  shows "\<exists>ps. v = JObj [(''flights'', JList ps), (''count'', JInt (int (length ps)))]"
  using assms unfolding parse_route_flights_try_def and_then_def
  by (auto split: sum.splits)

lemma parse_route_flights_eq_try:
  "parse_route_flights R response = parse_route_flights_try R response"
proof (cases "parse_route_flights_try R response")
  case (Inl e)
  then show ?thesis
    by (auto simp: parse_route_flights_def dest: parse_route_flights_try_error)
next
  case (Inr v)
  then show ?thesis by (simp add: parse_route_flights_def)
qed

lemma bad_code_try:
  "parse_flight_status_try R0 (with_flight bad_code_flight) = Inl (TypeError unhashable_list_text)"
  by (simp add: parse_flight_status_try_def with_flight_def bad_code_flight_def bad_code_fields_def py_get2_def
      first_flight_def flight_status_fields_def get_status_description_def unhashable_def
      unhashable_list_text_def)

lemma flight_fieldE:
  assumes "flight_field response = Some v"
  obtains r fd fs where "response = JObj r" and "map_of r ''FlightStatusResource'' = Some (JObj fd)"
    and "map_of fd ''Flights'' = Some (JObj fs)" and "map_of fs ''Flight'' = Some v"
  using assms
  by (auto simp: flight_field_def split: json.splits option.splits)

lemma flight_field_try:
  assumes "flight_field response = Some v"
  shows "parse_flight_status_try R response =
           (if \<not> truthy v then Inr (JObj [(''error'', JStr ''No flight data in response'')])
            else and_then (first_flight v) (flight_status_fields R))"
  using assms
  by (elim flight_fieldE) (simp add: parse_flight_status_try_def py_get2_def)

lemma flight_field_route_try:
  assumes "flight_field response = Some v"
  shows "parse_route_flights_try R response =
           and_then (parse_each R (as_flight_list v)) (\<lambda>parsed_flights.
             Inr (JObj [(''flights'', JList parsed_flights),
                        (''count'', JInt (int (length parsed_flights)))]))"
  using assms
  by (elim flight_fieldE) (simp add: parse_route_flights_try_def py_get2_def)

lemma flight_field_with_flight: "flight_field (with_flight v) = Some v"
  by (simp add: flight_field_def with_flight_def)

lemma single_flight_try:
  assumes "kvs \<noteq> []" and "flight_field r1 = Some (JObj kvs)" and "flight_field r2 = Some (JList [JObj kvs])"
  shows "parse_flight_status_try R r1 = flight_status_fields R (JObj kvs)"
    and "parse_flight_status_try R r2 = flight_status_fields R (JObj kvs)"
  using assms by (simp_all add: flight_field_try first_flight_def)

lemma single_flight_route:
  assumes "kvs \<noteq> []" and "flight_field r1 = Some (JObj kvs)" and "flight_field r2 = Some (JList [JObj kvs])"
  shows "parse_route_flights R r1 = parse_route_flights R r2"
  using assms by (simp add: parse_route_flights_eq_try flight_field_route_try as_flight_list_def)

lemma empty_flight_fields: "flight_status_fields R0 (JObj []) = Inr empty_flight_result"
  by (simp add: flight_status_fields_def py_get2_def get_status_description_def py_str_def
      status_map_def stop_details_def empty_flight_result_def empty_stop_def)

lemma empty_flight_entry: "parse_single_flight R0 (JObj []) = Inr empty_route_entry"
  by (simp add: parse_single_flight_def py_get2_def py_str_def empty_route_entry_def)

lemma sample_flight_fields: "flight_status_fields R0 (JObj sample_fields) = Inr sample_flight_result"
  by (simp add: flight_status_fields_def py_get2_def get_status_description_def py_str_def
      status_map_def stop_details_def sample_fields_def sample_flight_result_def)

lemma sample_flight_entry: "parse_single_flight R0 (JObj sample_fields) = Inr sample_route_entry"
  by (simp add: parse_single_flight_def py_get2_def py_str_def sample_fields_def sample_route_entry_def)

lemma bad_code_list_try:
  "parse_flight_status_try R0 (with_flight (JList [bad_code_flight])) = Inl (TypeError unhashable_list_text)"
  by (simp add: parse_flight_status_try_def with_flight_def bad_code_flight_def bad_code_fields_def py_get2_def
      first_flight_def flight_status_fields_def get_status_description_def unhashable_def
      unhashable_list_text_def)

lemma get_access_token_fresh:
  "token_fresh env st \<Longrightarrow> get_access_token env st = (Inr (access_token st), st, [])"
  by (simp add: get_access_token_def token_fresh_def)

lemma refresh_token_cases:
  "(\<exists>x st'. refresh_token env st = (Inl x, st', [auth_call st]))
   \<or> (\<exists>ra token_data tok t.
         auth_reply env = Reply ra \<and> raise_for_status ra = Inr () \<and> response_json ra = Inr token_data
         \<and> py_subscript token_data ''access_token'' = Inr tok
         \<and> and_then (py_get token_data ''expires_in'' (JInt 36000)) (add_seconds (clock_store env)) = Inr t
         \<and> refresh_token env st = (Inr tok, st\<lparr>access_token := tok, token_expires_at := t\<rparr>, [auth_call st]))"
proof (cases "auth_reply env")
  case (Failure m)
  then show ?thesis by (simp add: refresh_token_def)
next
  case (Reply ra)
  show ?thesis
  proof (cases "raise_for_status ra")
    case (Inl e)
    with Reply show ?thesis by (simp add: refresh_token_def)
  next
    case u: (Inr u)
    show ?thesis
    proof (cases "response_json ra")
      case (Inl e)
      with Reply u show ?thesis by (simp add: refresh_token_def)
    next
      case td: (Inr token_data)
      show ?thesis
      proof (cases "py_subscript token_data ''access_token''")
        case (Inl e)
        with Reply u td show ?thesis by (simp add: refresh_token_def)
      next
        case tok: (Inr tok)
        show ?thesis
        proof (cases "and_then (py_get token_data ''expires_in'' (JInt 36000)) (add_seconds (clock_store env))")
          case (Inl e)
          with Reply u td tok show ?thesis by (simp add: refresh_token_def)
        next
          case (Inr t)
          with Reply u td tok show ?thesis by (simp add: refresh_token_def)
        qed
      qed
    qed
  qed
qed

lemma get_flight_status_calls:
  "calls_of (get_flight_status R env st flight_number date) =
     calls_of (make_request R env st ''GET'' (''/operations/flightstatus/'' @ flight_number @ ''/'' @ date) None)"
  "client_after (get_flight_status R env st flight_number date) =
     client_after (make_request R env st ''GET'' (''/operations/flightstatus/'' @ flight_number @ ''/'' @ date) None)"
  by (simp_all add: get_flight_status_def calls_of_def client_after_def Let_def split: prod.splits)

lemma get_flight_status_by_route_calls:
  "calls_of (get_flight_status_by_route R env st origin destination date) =
     calls_of (make_request R env st ''GET''
       (''/operations/flightstatus/route/'' @ origin @ ''/'' @ destination @ ''/'' @ date) None)"
  "client_after (get_flight_status_by_route R env st origin destination date) =
     client_after (make_request R env st ''GET''
       (''/operations/flightstatus/route/'' @ origin @ ''/'' @ destination @ ''/'' @ date) None)"
  by (simp_all add: get_flight_status_by_route_def calls_of_def client_after_def Let_def split: prod.splits)

lemma get_schedules_calls:
  "calls_of (get_schedules R env st origin destination date direct_flights) =
     calls_of (make_request R env st ''GET''
       (''/operations/schedules/'' @ origin @ ''/'' @ destination @ ''/'' @ date)
       (Some [(''directFlights'', JBool direct_flights)]))"
  "client_after (get_schedules R env st origin destination date direct_flights) =
     client_after (make_request R env st ''GET''
       (''/operations/schedules/'' @ origin @ ''/'' @ destination @ ''/'' @ date)
       (Some [(''directFlights'', JBool direct_flights)]))"
  by (simp_all add: get_schedules_def calls_of_def client_after_def Let_def split: prod.splits)

lemma perform_via_make_request:
  "\<exists>endpoint params.
     calls_of (perform R env st op) = calls_of (make_request R env st ''GET'' endpoint params)
     \<and> client_after (perform R env st op) = client_after (make_request R env st ''GET'' endpoint params)"
proof (cases op)
  case (FlightStatus flight_number date)
  show ?thesis unfolding FlightStatus perform.simps
    by (intro exI conjI) (rule get_flight_status_calls)+
next
  case (FlightStatusByRoute origin destination date)
  show ?thesis unfolding FlightStatusByRoute perform.simps
    by (intro exI conjI) (rule get_flight_status_by_route_calls)+
next
  case (Arrivals airport from_time limit)
  show ?thesis unfolding Arrivals perform.simps get_arrivals_def Let_def
    by (intro exI conjI) (rule refl)+
next
  case (Departures airport from_time limit)
  show ?thesis unfolding Departures perform.simps get_departures_def Let_def
    by (intro exI conjI) (rule refl)+
next
  case (Schedules origin destination date direct_flights)
  show ?thesis unfolding Schedules perform.simps
    by (intro exI conjI) (rule get_schedules_calls)+
next
  case (Airport code)
  show ?thesis unfolding Airport perform.simps get_airport_def
    by (intro exI conjI) (rule refl)+
next
  case (Airline code)
  show ?thesis unfolding Airline perform.simps get_airline_def
    by (intro exI conjI) (rule refl)+
next
  case (Aircraft code)
  show ?thesis unfolding Aircraft perform.simps get_aircraft_def
    by (intro exI conjI) (rule refl)+
qed

lemma make_request_token_ok:
  assumes "get_access_token env st = (Inr tok, st', ev)"
  shows "calls_of (make_request R env st method endpoint params) =
           ev @ [DataCall method (base_url st' @ endpoint) (request_headers R tok) params]"
    and "client_after (make_request R env st method endpoint params) = st'"
  using assms
  by (simp_all add: make_request_def calls_of_def client_after_def Let_def split: reply.splits)

lemma make_request_token_failed:
  assumes "get_access_token env st = (Inl x, st', ev)"
  shows "calls_of (make_request R env st method endpoint params) = ev"
    and "client_after (make_request R env st method endpoint params) = st'"
  using assms
  by (simp_all add: make_request_def calls_of_def client_after_def)

lemma base_url_refresh [simp]: "base_url (st\<lparr>access_token := tok, token_expires_at := t\<rparr>) = base_url st"
  by simp

lemma perform_fresh:
  assumes "token_fresh env st"
  shows "\<exists>endpoint params.
           calls_of (perform R env st op) =
             [DataCall ''GET'' (base_url st @ endpoint) (request_headers R (access_token st)) params]
           \<and> client_after (perform R env st op) = st"
proof -
  from perform_via_make_request [of R env st op] obtain endpoint params where
    c: "calls_of (perform R env st op) = calls_of (make_request R env st ''GET'' endpoint params)" and
    s: "client_after (perform R env st op) = client_after (make_request R env st ''GET'' endpoint params)"
    by blast
  from assms have "get_access_token env st = (Inr (access_token st), st, [])"
    by (rule get_access_token_fresh)
  from make_request_token_ok [OF this, of R "''GET''" endpoint params] c s
  show ?thesis by auto
qed

lemma is_auth_auth_call [simp]: "is_auth (auth_call st)"
  by (simp add: auth_call_def)

lemma ok_reply_token:
  assumes "ok_reply rp payload"
  obtains ra where "rp = Reply ra" and "raise_for_status ra = Inr ()" and "response_json ra = Inr payload"
  using assms
  by (cases rp) (auto simp: ok_reply_def raise_for_status_def response_json_def)

lemma fresh_cached: "token_fresh (env_ok payload) cached_client"
  by (simp add: token_fresh_def env_ok_def cached_client_def)

lemma stale_client0: "\<not> token_fresh (env_ok payload) client0"
  by (simp add: token_fresh_def client0_def init_def)

lemma cached_run:
  "calls_of (perform R0 (env_ok payload) cached_client status_op) = [status_call ''t0'']"
  "client_after (perform R0 (env_ok payload) cached_client status_op) = cached_client"
  unfolding status_op_def perform.simps get_flight_status_calls
    make_request_token_ok [OF get_access_token_fresh [OF fresh_cached]]
  by (simp_all add: status_call_def request_headers_def py_str_def cached_client_def client0_def init_def)

lemma lifetime_add_seconds:
  assumes "lifetime (Some v) = Some s"
  shows "add_seconds c v = Inr (c + s)"
  using assms
  by (cases v) (auto simp: lifetime_def add_seconds_def float_overflow_def split: if_splits)

lemma add_seconds_lifetime:
  assumes "add_seconds c v = Inr t"
  shows "lifetime (Some v) = Some (t - c)"
  using assms
  by (cases v) (auto simp: lifetime_def add_seconds_def float_overflow_def split: if_splits)

lemma lifetime_expiry:
  assumes "lifetime (map_of kvs ''expires_in'') = Some s"
  shows "and_then (py_get (JObj kvs) ''expires_in'' (JInt 36000)) (add_seconds c) = Inr (c + s)"
proof (cases "map_of kvs ''expires_in''")
  case None
  with assms show ?thesis by (simp add: lifetime_def add_seconds_def)
next
  case (Some v)
  with assms show ?thesis by (simp add: lifetime_add_seconds)
qed

lemma expiry_lifetime:
  assumes "and_then (py_get (JObj kvs) ''expires_in'' (JInt 36000)) (add_seconds c) = Inr t"
  shows "lifetime (map_of kvs ''expires_in'') = Some (t - c)"
proof (cases "map_of kvs ''expires_in''")
  case None
  with assms show ?thesis by (auto simp: lifetime_def add_seconds_def)
next
  case (Some v)
  with assms show ?thesis by (simp add: add_seconds_lifetime)
qed

lemma grantsE:
  assumes "grants rp tok secs"
  obtains ra kvs where "rp = Reply ra" and "status_code ra < 400 \<or> 600 \<le> status_code ra"
    and "json_body ra = Some (JObj kvs)" and "map_of kvs ''access_token'' = Some tok"
    and "lifetime (map_of kvs ''expires_in'') = Some secs"
  using assms
  by (auto simp: grants_def split: reply.splits option.splits json.splits)

lemma grants_refresh:
  assumes "grants (auth_reply env) tok secs"
  shows "refresh_token env st =
           (Inr tok, st\<lparr>access_token := tok, token_expires_at := clock_store env + secs\<rparr>, [auth_call st])"
proof -
  from assms obtain ra kvs where ra: "auth_reply env = Reply ra"
    and s: "status_code ra < 400 \<or> 600 \<le> status_code ra"
    and b: "json_body ra = Some (JObj kvs)" and t: "map_of kvs ''access_token'' = Some tok"
    and l: "lifetime (map_of kvs ''expires_in'') = Some secs"
    by (rule grantsE)
  from s have r: "raise_for_status ra = Inr ()" by (auto simp: raise_for_status_def)
  from b have j: "response_json ra = Inr (JObj kvs)" by (simp add: response_json_def)
  from t have p: "py_subscript (JObj kvs) ''access_token'' = Inr tok" by (simp add: py_subscript_def)
  from ra r j p lifetime_expiry [OF l, of "clock_store env"] show ?thesis
    by (simp add: refresh_token_def)
qed

lemma py_subscript_Inr:
  assumes "py_subscript x k = Inr v"
  obtains kvs where "x = JObj kvs" and "map_of kvs k = Some v"
  using assms
  by (cases x) (auto simp: py_subscript_def split: option.splits)

lemma no_grant_refresh:
  assumes "\<forall>tok secs. \<not> grants (auth_reply env) tok secs"
  shows "\<exists>x st'. refresh_token env st = (Inl x, st', [auth_call st])"
proof -
  from refresh_token_cases [of env st] show ?thesis
  proof
    assume "\<exists>x st'. refresh_token env st = (Inl x, st', [auth_call st])"
    then show ?thesis .
  next
    assume "\<exists>ra token_data tok t.
         auth_reply env = Reply ra \<and> raise_for_status ra = Inr () \<and> response_json ra = Inr token_data
         \<and> py_subscript token_data ''access_token'' = Inr tok
         \<and> and_then (py_get token_data ''expires_in'' (JInt 36000)) (add_seconds (clock_store env)) = Inr t
         \<and> refresh_token env st = (Inr tok, st\<lparr>access_token := tok, token_expires_at := t\<rparr>, [auth_call st])"
    then obtain ra token_data tok t where ra: "auth_reply env = Reply ra"
      and r: "raise_for_status ra = Inr ()" and j: "response_json ra = Inr token_data"
      and p: "py_subscript token_data ''access_token'' = Inr tok"
      and e: "and_then (py_get token_data ''expires_in'' (JInt 36000)) (add_seconds (clock_store env)) = Inr t"
      by blast
    from p obtain kvs where k: "token_data = JObj kvs" and m: "map_of kvs ''access_token'' = Some tok"
      by (rule py_subscript_Inr)
    from r have s: "status_code ra < 400 \<or> 600 \<le> status_code ra"
      by (auto simp: raise_for_status_def split: if_splits)
    from j k have b: "json_body ra = Some (JObj kvs)"
      by (auto simp: response_json_def split: option.splits)
    from e k have "lifetime (map_of kvs ''expires_in'') = Some (t - clock_store env)"
      by (simp add: expiry_lifetime)
    with ra s b m have "grants (auth_reply env) tok (t - clock_store env)"
      by (simp add: grants_def)
    with assms show ?thesis by blast
  qed
qed

lemma stale_get_access_token:
  assumes "\<not> (truthy (access_token st) \<and> clock_check env < token_expires_at st - 60)"
  shows "get_access_token env st =
      (case refresh_token env st of
         (Inl e, st', ev) \<Rightarrow> ((if is_RequestException e then Inl (RuntimeError e) else Inl e), st', ev)
       | (Inr tok, st', ev) \<Rightarrow> (Inr tok, st', ev))"
  using assms by (auto simp: get_access_token_def)

lemma perform_granted:
  assumes "\<not> (truthy (access_token st) \<and> clock_check env < token_expires_at st - 60)"
    and "grants (auth_reply env) tok secs"
  shows "\<exists>endpoint params.
           calls_of (perform R env st op) =
             [auth_call st, DataCall ''GET'' (base_url st @ endpoint) (request_headers R tok) params]
           \<and> client_after (perform R env st op) =
               st\<lparr>access_token := tok, token_expires_at := clock_store env + secs\<rparr>"
proof -
  from perform_via_make_request [of R env st op] obtain endpoint params where
    c: "calls_of (perform R env st op) = calls_of (make_request R env st ''GET'' endpoint params)" and
    s: "client_after (perform R env st op) = client_after (make_request R env st ''GET'' endpoint params)"
    by blast
  have g: "get_access_token env st =
      (Inr tok, st\<lparr>access_token := tok, token_expires_at := clock_store env + secs\<rparr>, [auth_call st])"
    by (simp add: stale_get_access_token [OF assms(1)] grants_refresh [OF assms(2)])
  from make_request_token_ok [OF g, of R "''GET''" endpoint params] c s
  show ?thesis by auto
qed

lemma perform_not_granted:
  assumes "\<not> (truthy (access_token st) \<and> clock_check env < token_expires_at st - 60)"
    and "\<forall>tok secs. \<not> grants (auth_reply env) tok secs"
  shows "calls_of (perform R env st op) = [auth_call st]"
proof -
  from perform_via_make_request [of R env st op] obtain endpoint params where
    c: "calls_of (perform R env st op) = calls_of (make_request R env st ''GET'' endpoint params)"
    by blast
  from no_grant_refresh [OF assms(2), of st] obtain x st' where
    "refresh_token env st = (Inl x, st', [auth_call st])" by blast
  then have "\<exists>y. get_access_token env st = (Inl y, st', [auth_call st])"
    by (simp add: stale_get_access_token [OF assms(1)])
  then obtain y where "get_access_token env st = (Inl y, st', [auth_call st])" by blast
  from make_request_token_failed(1) [OF this, of R "''GET''" endpoint params] c
  show ?thesis by simp
qed

lemma granted_token:
  assumes "\<not> (truthy (access_token st) \<and> clock_check env < token_expires_at st - 60)"
    and "grants (auth_reply env) tok secs"
  shows "get_access_token env st =
      (Inr tok, st\<lparr>access_token := tok, token_expires_at := clock_store env + secs\<rparr>, [auth_call st])"
  by (simp add: stale_get_access_token [OF assms(1)] grants_refresh [OF assms(2)])

lemma status_op_run:
  assumes "get_access_token env st = (Inr tok, st', ev)"
  shows "calls_of (perform R env st status_op) =
           ev @ [DataCall ''GET'' (base_url st' @ ''/operations/flightstatus/LH456/2026-02-28'')
                   (request_headers R tok) None]"
    and "client_after (perform R env st status_op) = st'"
  unfolding status_op_def perform.simps get_flight_status_calls make_request_token_ok [OF assms]
  by simp_all

lemma auth_call_client0 [simp]: "auth_call client0 = token_call"
  by (simp add: auth_call_def client0_def init_def token_call_def)

lemma auth_call_expired [simp]: "auth_call expired_client = token_call"
  by (simp add: auth_call_def expired_client_def client0_def init_def token_call_def)

lemma stale0: "\<not> (truthy (access_token client0) \<and> clock_check env < token_expires_at client0 - 60)"
  by (simp add: client0_def init_def)

lemma stale_exp:
  "\<not> (truthy (access_token expired_client) \<and> clock_check (env_auth rp) < token_expires_at expired_client - 60)"
  by (simp add: expired_client_def env_auth_def)

lemma grants_hour: "grants (auth_reply (env_auth hour_reply)) (JStr ''t1'') 3600"
  by (simp add: grants_def env_auth_def hour_reply_def lifetime_def)

lemma grants_null: "grants (auth_reply (env_auth null_token_reply)) JNull 36000"
  by (simp add: grants_def env_auth_def null_token_reply_def lifetime_def)

lemma grants_past: "grants (auth_reply (env_auth past_reply)) (JStr ''t1'') (- 500)"
  by (simp add: grants_def env_auth_def past_reply_def lifetime_def)

lemma no_grant_denied: "\<forall>tok secs. \<not> grants (auth_reply (env_auth denied_reply)) tok secs"
  by (simp add: grants_def env_auth_def denied_reply_def)

lemma no_grant_huge: "\<forall>tok secs. \<not> grants (auth_reply (env_auth huge_reply)) tok secs"
  by (simp add: grants_def env_auth_def huge_reply_def lifetime_def)

lemma base_url_client0: "base_url client0 = ''https://api.lufthansa.com/v1''"
  by (simp add: client0_def init_def)

lemma base_url_expired: "base_url expired_client = ''https://api.lufthansa.com/v1''"
  by (simp add: expired_client_def client0_def init_def)

lemma clock_store_env_auth: "clock_store (env_auth rp) = 100"
  by (simp add: env_auth_def)

lemma hour_run:
  "calls_of (perform R0 (env_auth hour_reply) expired_client status_op) = [token_call, status_call ''t1'']"
  "client_after (perform R0 (env_auth hour_reply) expired_client status_op) =
     expired_client\<lparr>access_token := JStr ''t1'', token_expires_at := 3700\<rparr>"
  unfolding status_op_run [OF granted_token [OF stale_exp grants_hour]]
  by (simp_all add: base_url_expired clock_store_env_auth status_call_def request_headers_def py_str_def)

lemma null_run:
  "calls_of (perform R0 (env_auth null_token_reply) client0 status_op) = [token_call, status_call ''None'']"
  "client_after (perform R0 (env_auth null_token_reply) client0 status_op) =
     client0\<lparr>access_token := JNull, token_expires_at := 36100\<rparr>"
  unfolding status_op_run [OF granted_token [OF stale0 grants_null]]
  by (simp_all add: base_url_client0 clock_store_env_auth status_call_def request_headers_def py_str_def)

lemma past_run:
  "calls_of (perform R0 (env_auth past_reply) client0 status_op) = [token_call, status_call ''t1'']"
  "client_after (perform R0 (env_auth past_reply) client0 status_op) =
     client0\<lparr>access_token := JStr ''t1'', token_expires_at := - 400\<rparr>"
  unfolding status_op_run [OF granted_token [OF stale0 grants_past]]
  by (simp_all add: base_url_client0 clock_store_env_auth status_call_def request_headers_def py_str_def)


subsection \<open>The token cache\<close>

text \<open>
  C4. When the client holds a token and the clock is more than 60 seconds before its
  expiry, an operation reuses it: \<^verbatim>\<open>_get_access_token\<close> returns the cached token without
  a call, the operation issues no token request, its one call is the data request with
  the cached token in the headers, and the client (token and expiry) is left as it was.
\<close>

theorem cached_token_reused:
  assumes "token_fresh env st"
  shows "get_access_token env st = (Inr (access_token st), st, [])
       \<and> filter is_auth (calls_of (perform R env st op)) = []
       \<and> client_after (perform R env st op) = st
       \<and> (\<exists>endpoint params.
             calls_of (perform R env st op) =
               [DataCall ''GET'' (base_url st @ endpoint) (request_headers R (access_token st)) params])"
proof -
  from perform_fresh [OF assms, of R op] obtain endpoint params where
    c: "calls_of (perform R env st op) =
         [DataCall ''GET'' (base_url st @ endpoint) (request_headers R (access_token st)) params]"
    and s: "client_after (perform R env st op) = st"
    by blast
  from c have "filter is_auth (calls_of (perform R env st op)) = []" by simp
  with c s get_access_token_fresh [OF assms] show ?thesis by blast
qed

theorem cached_token_reused_witness:
  "token_fresh (env_ok (JObj [])) cached_client
   \<and> get_access_token (env_ok (JObj [])) cached_client = (Inr (JStr ''t0''), cached_client, [])
   \<and> filter is_auth (calls_of (perform R0 (env_ok (JObj [])) cached_client status_op)) = []
   \<and> client_after (perform R0 (env_ok (JObj [])) cached_client status_op) = cached_client
   \<and> calls_of (perform R0 (env_ok (JObj [])) cached_client status_op) = [status_call ''t0'']"
proof -
  have f: "token_fresh (env_ok (JObj [])) cached_client" by (rule fresh_cached)
  have a: "access_token cached_client = JStr ''t0''" by (simp add: cached_client_def)
  from cached_token_reused [OF f, of R0 status_op] f a cached_run(1) [of "JObj []"]
  show ?thesis by simp
qed

text \<open>
  C9. When a refresh is answered with a status from 200 to 299 and a JSON object that
  holds \<^verbatim>\<open>access_token\<close> and lacks \<^verbatim>\<open>expires_in\<close>, the expiry stored with the token
  is the clock at that moment plus 36000 seconds.
\<close>

theorem default_lifetime:
  assumes "\<not> token_fresh env st" and "ok_reply (auth_reply env) (JObj kvs)"
    and "map_of kvs ''access_token'' = Some tok" and "map_of kvs ''expires_in'' = None"
  shows "get_access_token env st =
           (Inr tok, st\<lparr>access_token := tok, token_expires_at := clock_store env + 36000\<rparr>, [auth_call st])
       \<and> access_token (client_after (perform R env st op)) = tok
       \<and> token_expires_at (client_after (perform R env st op)) = clock_store env + 36000"
proof -
  from assms(2) obtain ra where ra: "auth_reply env = Reply ra" "raise_for_status ra = Inr ()"
    "response_json ra = Inr (JObj kvs)"
    by (rule ok_reply_token)
  with assms(3,4) have r: "refresh_token env st =
      (Inr tok, st\<lparr>access_token := tok, token_expires_at := clock_store env + 36000\<rparr>, [auth_call st])"
    by (simp add: refresh_token_def py_subscript_def add_seconds_def)
  with assms(1) have g: "get_access_token env st =
      (Inr tok, st\<lparr>access_token := tok, token_expires_at := clock_store env + 36000\<rparr>, [auth_call st])"
    by (auto simp: get_access_token_def token_fresh_def)
  from perform_via_make_request [of R env st op] obtain endpoint params where
    s: "client_after (perform R env st op) = client_after (make_request R env st ''GET'' endpoint params)"
    by blast
  from make_request_token_ok(2) [OF g, of R "''GET''" endpoint params] s g
  show ?thesis by simp
qed

theorem default_lifetime_witness:
  "\<not> token_fresh (env_ok (JObj [])) client0
   \<and> ok_reply (auth_reply (env_ok (JObj []))) (JObj [(''access_token'', JStr ''t1'')])
   \<and> map_of [(''access_token'', JStr ''t1'')] ''access_token'' = Some (JStr ''t1'')
   \<and> map_of [(''access_token'', JStr ''t1'')] ''expires_in'' = None
   \<and> clock_store (env_ok (JObj [])) = 100
   \<and> get_access_token (env_ok (JObj [])) client0 =
       (Inr (JStr ''t1''), client0\<lparr>access_token := JStr ''t1'', token_expires_at := 36100\<rparr>, [auth_call client0])
   \<and> access_token (client_after (perform R0 (env_ok (JObj [])) client0 status_op)) = JStr ''t1''
   \<and> token_expires_at (client_after (perform R0 (env_ok (JObj [])) client0 status_op)) = 36100"
proof -
  have n: "\<not> token_fresh (env_ok (JObj [])) client0" by (rule stale_client0)
  have k: "ok_reply (auth_reply (env_ok (JObj []))) (JObj [(''access_token'', JStr ''t1'')])"
    by (simp add: ok_reply_def env_ok_def token_reply_def)
  have m1: "map_of [(''access_token'', JStr ''t1'')] ''access_token'' = Some (JStr ''t1'')" by simp
  have m2: "map_of [(''access_token'', JStr ''t1'')] ''expires_in'' = None" by simp
  have c: "clock_store (env_ok (JObj [])) = 100" by (simp add: env_ok_def)
  from default_lifetime [OF n k m1 m2, of R0 status_op] n k c
  show ?thesis by simp
qed


subsection \<open>Refreshing the token\<close>




subsection \<open>The token a data request carries\<close>

text \<open>
  C1, as the claim states it, fails in its last clause. The client sends what the token
  endpoint returned without looking at it: a reply with status 200 whose
  \<^verbatim>\<open>access_token\<close> is \<open>None\<close> leads to a data request with the header
  \<^verbatim>\<open>Bearer None\<close> and a cache that Python takes as holding no token, and a reply whose
  \<^verbatim>\<open>expires_in\<close> is negative leads to a data request with a token whose stored expiry
  is before the clock.
\<close>

theorem unvalidated_token_counterexample:
  "calls_of (perform R0 (env_auth null_token_reply) client0 status_op) = [token_call, status_call ''None'']
   \<and> access_token (client_after (perform R0 (env_auth null_token_reply) client0 status_op)) = JNull
   \<and> \<not> truthy JNull
   \<and> calls_of (perform R0 (env_auth past_reply) client0 status_op) = [token_call, status_call ''t1'']
   \<and> token_expires_at (client_after (perform R0 (env_auth past_reply) client0 status_op)) = - 400
   \<and> clock_store (env_auth past_reply) = 100"
  by (simp add: null_run past_run clock_store_env_auth)

text \<open>
  C1, amended. Every data request an operation issues carries the headers
  \<^verbatim>\<open>Authorization: Bearer <token>\<close> and \<^verbatim>\<open>Accept: application/json\<close>, where the
  token is either the cached one, held and with the clock more than 60 seconds before
  its expiry, and then the data request is the only call; or the value under
  \<^verbatim>\<open>access_token\<close> of the reply to the token request that the same operation issued
  just before, now stored in the client. A cached token is thus never sent expired or
  absent, and no data request is issued when the reply grants no token; what a reply
  grants is sent as it is.
\<close>

theorem bearer_token_invariant:
  assumes "DataCall method url headers params \<in> set (calls_of (perform R env st op))"
  shows "\<exists>tok. headers = [(''Authorization'', ''Bearer '' @ py_str R tok), (''Accept'', ''application/json'')]
       \<and> ((truthy (access_token st) \<and> clock_check env < token_expires_at st - 60
            \<and> tok = access_token st
            \<and> calls_of (perform R env st op) = [DataCall method url headers params])
          \<or> (\<not> (truthy (access_token st) \<and> clock_check env < token_expires_at st - 60)
              \<and> (\<exists>secs. grants (auth_reply env) tok secs)
              \<and> calls_of (perform R env st op) =
                  [AuthCall (auth_url st)
                     [(''client_id'', client_id st), (''client_secret'', client_secret st),
                      (''grant_type'', ''client_credentials'')],
                   DataCall method url headers params]
              \<and> access_token (client_after (perform R env st op)) = tok))"
proof (cases "truthy (access_token st) \<and> clock_check env < token_expires_at st - 60")
  case True
  then have f: "token_fresh env st" by (simp add: token_fresh_def)
  from perform_fresh [OF f, of R op] obtain endpoint params' where
    c: "calls_of (perform R env st op) =
         [DataCall ''GET'' (base_url st @ endpoint) (request_headers R (access_token st)) params']"
    by blast
  with assms have "headers = request_headers R (access_token st)"
    and "calls_of (perform R env st op) = [DataCall method url headers params]"
    by auto
  with True show ?thesis by (auto simp: request_headers_def)
next
  case False
  show ?thesis
  proof (cases "\<exists>tok secs. grants (auth_reply env) tok secs")
    case True
    then obtain tok secs where g: "grants (auth_reply env) tok secs" by blast
    from perform_granted [OF False g, of R op] obtain endpoint params' where
      c: "calls_of (perform R env st op) =
             [auth_call st, DataCall ''GET'' (base_url st @ endpoint) (request_headers R tok) params']"
      and s: "client_after (perform R env st op) =
               st\<lparr>access_token := tok, token_expires_at := clock_store env + secs\<rparr>"
      by blast
    from c assms have h: "headers = request_headers R tok"
      and c': "calls_of (perform R env st op) = [auth_call st, DataCall method url headers params]"
      by (auto simp: auth_call_def)
    from s have "access_token (client_after (perform R env st op)) = tok" by simp
    with False g h c' show ?thesis by (auto simp: request_headers_def auth_call_def)
  next
    case no: False
    then have "\<forall>tok secs. \<not> grants (auth_reply env) tok secs" by blast
    from perform_not_granted [OF False this, of R op] assms show ?thesis
      by (simp add: auth_call_def)
  qed
qed

theorem bearer_token_invariant_witness:
  "status_call ''t0'' \<in> set (calls_of (perform R0 (env_ok (JObj [])) cached_client status_op))
   \<and> truthy (access_token cached_client)
   \<and> clock_check (env_ok (JObj [])) < token_expires_at cached_client - 60
   \<and> calls_of (perform R0 (env_ok (JObj [])) cached_client status_op) = [status_call ''t0'']
   \<and> status_call ''t1'' \<in> set (calls_of (perform R0 (env_auth hour_reply) expired_client status_op))
   \<and> \<not> (truthy (access_token expired_client)
          \<and> clock_check (env_auth hour_reply) < token_expires_at expired_client - 60)
   \<and> grants (auth_reply (env_auth hour_reply)) (JStr ''t1'') 3600
   \<and> calls_of (perform R0 (env_auth hour_reply) expired_client status_op) = [token_call, status_call ''t1'']
   \<and> (\<exists>tok. ''Bearer t1'' = ''Bearer '' @ py_str R0 tok
           \<and> access_token (client_after (perform R0 (env_auth hour_reply) expired_client status_op)) = tok)"
proof -
  have m0: "DataCall ''GET'' ''https://api.lufthansa.com/v1/operations/flightstatus/LH456/2026-02-28''
       [(''Authorization'', ''Bearer t0''), (''Accept'', ''application/json'')] None
     \<in> set (calls_of (perform R0 (env_ok (JObj [])) cached_client status_op))"
    by (simp add: cached_run status_call_def)
  have m1: "DataCall ''GET'' ''https://api.lufthansa.com/v1/operations/flightstatus/LH456/2026-02-28''
       [(''Authorization'', ''Bearer t1''), (''Accept'', ''application/json'')] None
     \<in> set (calls_of (perform R0 (env_auth hour_reply) expired_client status_op))"
    by (simp add: hour_run status_call_def)
  have f: "truthy (access_token cached_client) \<and> clock_check (env_ok (JObj [])) < token_expires_at cached_client - 60"
    using fresh_cached [of "JObj []"] by (simp add: token_fresh_def)
  have e: "\<not> (truthy (access_token expired_client)
          \<and> clock_check (env_auth hour_reply) < token_expires_at expired_client - 60)"
    by (rule stale_exp)
  from bearer_token_invariant [OF m1] e
  have x: "\<exists>tok. ''Bearer t1'' = ''Bearer '' @ py_str R0 tok
           \<and> access_token (client_after (perform R0 (env_auth hour_reply) expired_client status_op)) = tok"
    by auto
  from bearer_token_invariant [OF m0] f
  have y: "calls_of (perform R0 (env_ok (JObj [])) cached_client status_op) = [status_call ''t0'']"
    by (auto simp: status_call_def)
  from m0 m1 f e x y grants_hour hour_run(1) show ?thesis
    by (simp add: status_call_def)
qed

subsection \<open>The table of status codes\<close>

text \<open>
  C8. On strings \<^verbatim>\<open>_get_status_description\<close> never fails: each of the eleven codes of
  the table gives its fixed description (\<open>DL\<close> gives \<open>Delayed\<close>), and every other string
  \<open>c\<close> gives \<open>Unknown (c)\<close>.
\<close>

theorem status_description_table:
  "(get_status_description R (JStr ''CD'') = Inr ''Cancelled''
    \<and> get_status_description R (JStr ''DP'') = Inr ''Departed''
    \<and> get_status_description R (JStr ''LD'') = Inr ''Landed''
    \<and> get_status_description R (JStr ''RT'') = Inr ''Rerouted''
    \<and> get_status_description R (JStr ''DV'') = Inr ''Diverted''
    \<and> get_status_description R (JStr ''HD'') = Inr ''On Hold''
    \<and> get_status_description R (JStr ''FE'') = Inr ''Flight Early''
    \<and> get_status_description R (JStr ''NI'') = Inr ''Next Information''
    \<and> get_status_description R (JStr ''OT'') = Inr ''On Time''
    \<and> get_status_description R (JStr ''DL'') = Inr ''Delayed''
    \<and> get_status_description R (JStr ''NO'') = Inr ''No Status'')
   \<and> (c \<notin> {''CD'', ''DP'', ''LD'', ''RT'', ''DV'', ''HD'', ''FE'', ''NI'', ''OT'', ''DL'', ''NO''}
        \<longrightarrow> get_status_description R (JStr c) = Inr (''Unknown ('' @ c @ '')''))
   \<and> (\<exists>d. get_status_description R (JStr c) = Inr d)"
  by (simp add: get_status_description_def status_map_def py_str_def)

theorem status_description_table_witness:
  "get_status_description R0 (JStr ''DL'') = Inr ''Delayed''
   \<and> ''ZZ'' \<notin> {''CD'', ''DP'', ''LD'', ''RT'', ''DV'', ''HD'', ''FE'', ''NI'', ''OT'', ''DL'', ''NO''}
   \<and> get_status_description R0 (JStr ''ZZ'') = Inr ''Unknown (ZZ)''"
  using status_description_table [of R0 "''ZZ''"] by simp

subsection \<open>Status 404\<close>



subsection \<open>Error statuses in the five flight operations\<close>

text \<open>
  C2, as the claim states it, fails: \<^verbatim>\<open>get_arrivals\<close> and \<^verbatim>\<open>get_departures\<close> have no handler
  for \<^verbatim>\<open>HTTPError\<close>, so a reply with status 404 raises in them as any other error status
  does.
\<close>

theorem arrivals_404_counterexample:
  "token_obtained env404 client0 \<and> data_reply env404 = Reply not_found \<and> status_code not_found = 404
   \<and> result_of (get_arrivals R0 env404 client0 ''FRA'' ''2026-02-28T10:00'' 20) = Inl (HTTPError not_found)
   \<and> result_of (get_departures R0 env404 client0 ''HAM'' ''2026-02-28T10:00'' 20) = Inl (HTTPError not_found)"
proof -
  have h2: "data_reply env404 = Reply not_found" by (simp add: env404_def)
  have h3: "status_code not_found = 404" by (simp add: not_found_def)
  show ?thesis
    using h2 h3 token_obtained_env404
    by (simp add: get_arrivals_result get_departures_result make_request_error_status)
qed

text \<open>
  C2, amended. When the data request is answered with a status from 400 to 599 (the
  statuses for which \<^verbatim>\<open>raise_for_status\<close> raises): \<^verbatim>\<open>get_flight_status\<close>,
  \<^verbatim>\<open>get_flight_status_by_route\<close> and \<^verbatim>\<open>get_schedules\<close> return their not-found value
  for 404 and raise the \<^verbatim>\<open>HTTPError\<close> that carries the response (status code and body)
  for every other status; \<^verbatim>\<open>get_arrivals\<close> and \<^verbatim>\<open>get_departures\<close> raise that
  \<^verbatim>\<open>HTTPError\<close> for every such status, 404 included.
\<close>

theorem error_status_results:
  assumes "token_obtained env st" and "data_reply env = Reply r"
    and "400 \<le> status_code r" and "status_code r < 600"
  shows "result_of (get_flight_status R env st flight_number date) =
           (if status_code r = 404
            then Inr (JObj [(''error'', JStr (''Flight '' @ flight_number @ '' not found for '' @ date))])
            else Inl (HTTPError r))
       \<and> result_of (get_flight_status_by_route R env st origin destination date) =
           (if status_code r = 404
            then Inr (JObj [(''flights'', JList []),
                            (''message'', JStr (''No flights found '' @ origin @ arrow @ destination @ '' on '' @ date))])
            else Inl (HTTPError r))
       \<and> result_of (get_schedules R env st origin destination date direct_flights) =
           (if status_code r = 404
            then Inr (JObj [(''schedules'', JList []), (''message'', JStr ''No schedules found'')])
            else Inl (HTTPError r))
       \<and> result_of (get_arrivals R env st airport from_time limit) = Inl (HTTPError r)
       \<and> result_of (get_departures R env st airport from_time limit) = Inl (HTTPError r)"
  using assms
  by (simp add: get_flight_status_result get_flight_status_by_route_result get_schedules_result
        get_arrivals_result get_departures_result make_request_error_status on_404_HTTPError)

theorem error_status_results_witness:
  "token_obtained env404 client0 \<and> data_reply env404 = Reply not_found
   \<and> 400 \<le> status_code not_found \<and> status_code not_found < 600
   \<and> result_of (get_schedules R0 env404 client0 ''HAM'' ''JFK'' ''2026-02-28'' False) =
       Inr (JObj [(''schedules'', JList []), (''message'', JStr ''No schedules found'')])
   \<and> result_of (get_arrivals R0 env404 client0 ''FRA'' ''2026-02-28T10:00'' 20) = Inl (HTTPError not_found)
   \<and> token_obtained env500 client0 \<and> data_reply env500 = Reply server_error
   \<and> 400 \<le> status_code server_error \<and> status_code server_error < 600
   \<and> result_of (get_flight_status R0 env500 client0 ''LH456'' ''2026-02-28'') = Inl (HTTPError server_error)
   \<and> result_of (get_schedules R0 env500 client0 ''HAM'' ''JFK'' ''2026-02-28'' False) = Inl (HTTPError server_error)"
proof -
  have a1: "token_obtained env404 client0" by (rule token_obtained_env404)
  have a2: "data_reply env404 = Reply not_found" by (simp add: env404_def)
  have a3: "400 \<le> status_code not_found" by (simp add: not_found_def)
  have a4: "status_code not_found < 600" by (simp add: not_found_def)
  have a5: "status_code not_found = 404" by (simp add: not_found_def)
  have b1: "token_obtained env500 client0" by (rule token_obtained_env500)
  have b2: "data_reply env500 = Reply server_error" by (simp add: env500_def)
  have b3: "400 \<le> status_code server_error" by (simp add: server_error_def)
  have b4: "status_code server_error < 600" by (simp add: server_error_def)
  have b5: "status_code server_error \<noteq> 404" by (simp add: server_error_def)
  from error_status_results [OF a1 a2 a3 a4, of R0 "''LH456''" "''2026-02-28''" "''HAM''" "''JFK''" False "''FRA''" "''2026-02-28T10:00''" 20]
    error_status_results [OF b1 b2 b3 b4, of R0 "''LH456''" "''2026-02-28''" "''HAM''" "''JFK''" False "''FRA''" "''2026-02-28T10:00''" 20]
    a1 a2 a3 a4 a5 b1 b2 b3 b4 b5
  show ?thesis by simp
qed


subsection \<open>Payloads without flight data\<close>

text \<open>
  C10, as the claim states it, fails: the field
  \<^verbatim>\<open>FlightStatusResource.Flights.Flight\<close> is also absent from a payload whose
  \<^verbatim>\<open>Flights\<close> is \<open>None\<close>, and there \<^verbatim>\<open>get_flight_status\<close> raises
  \<^verbatim>\<open>AttributeError\<close> instead of returning the error result.
\<close>

theorem flights_null_counterexample:
  "token_obtained (env_ok flights_null) client0
   \<and> ok_reply (data_reply (env_ok flights_null)) flights_null
   \<and> flight_field flights_null = None
   \<and> result_of (get_flight_status R0 (env_ok flights_null) client0 ''LH456'' ''2026-02-28'') =
        Inl attribute_error_none"
proof -
  have "parse_flight_status R0 flights_null = Inl attribute_error_none"
    by (simp add: parse_flight_status_def parse_flight_status_try_def flights_null_def
        py_get2_def no_get_def attribute_error_none_def)
  moreover have "flight_field flights_null = None"
    by (simp add: flight_field_def flights_null_def)
  ultimately show ?thesis
    by (simp add: get_flight_status_ok [OF token_obtained_env_ok ok_reply_env_ok]
        token_obtained_env_ok ok_reply_env_ok on_404_def attribute_error_none_def)
qed

text \<open>
  C10, amended. When the data request of \<^verbatim>\<open>get_flight_status\<close> is answered with a status
  from 200 to 299 and a payload that is an object in which \<^verbatim>\<open>FlightStatusResource\<close> and
  \<^verbatim>\<open>Flights\<close> are each missing or an object, and \<^verbatim>\<open>Flight\<close> is missing, an empty list
  or another value that is false for Python, the operation returns the object with the
  one entry \<open>error\<close>, "No flight data in response", and raises nothing.
\<close>

theorem no_flight_data_result:
  assumes "token_obtained env st" and "ok_reply (data_reply env) response"
    and "no_flight_data response"
  shows "result_of (get_flight_status R env st flight_number date) =
           Inr (JObj [(''error'', JStr ''No flight data in response'')])"
  using assms
  by (simp add: get_flight_status_ok parse_flight_status_def no_flight_data_parse)

theorem no_flight_data_result_witness:
  "token_obtained (env_ok (JObj [])) client0
   \<and> ok_reply (data_reply (env_ok (JObj []))) (JObj []) \<and> no_flight_data (JObj [])
   \<and> result_of (get_flight_status R0 (env_ok (JObj [])) client0 ''LH456'' ''2026-02-28'') =
        Inr (JObj [(''error'', JStr ''No flight data in response'')])
   \<and> no_flight_data (with_flight (JList []))
   \<and> result_of (get_flight_status R0 (env_ok (with_flight (JList []))) client0 ''LH456'' ''2026-02-28'') =
        Inr (JObj [(''error'', JStr ''No flight data in response'')])
   \<and> no_flight_data (with_flight JNull)
   \<and> result_of (get_flight_status R0 (env_ok (with_flight JNull)) client0 ''LH456'' ''2026-02-28'') =
        Inr (JObj [(''error'', JStr ''No flight data in response'')])"
proof -
  have n1: "no_flight_data (JObj [])" by (simp add: no_flight_data_def)
  have n2: "no_flight_data (with_flight (JList []))" by (simp add: no_flight_data_def with_flight_def)
  have n3: "no_flight_data (with_flight JNull)" by (simp add: no_flight_data_def with_flight_def)
  from no_flight_data_result [OF token_obtained_env_ok ok_reply_env_ok n1, of R0 "''LH456''" "''2026-02-28''"]
    no_flight_data_result [OF token_obtained_env_ok ok_reply_env_ok n2, of R0 "''LH456''" "''2026-02-28''"]
    no_flight_data_result [OF token_obtained_env_ok ok_reply_env_ok n3, of R0 "''LH456''" "''2026-02-28''"]
    n1 n2 n3 token_obtained_env_ok [of "JObj []"] ok_reply_env_ok [of "JObj []"]
  show ?thesis by simp
qed

subsection \<open>Parsing failures\<close>

text \<open>
  C3. The specification says that a parsing failure on a successfully received payload
  never reaches the caller of \<^verbatim>\<open>get_flight_status\<close> and
  \<^verbatim>\<open>get_flight_status_by_route\<close>: it is caught and returned as an error result. The
  code does not do so. Both parsers catch \<^verbatim>\<open>KeyError\<close> and \<^verbatim>\<open>TypeError\<close> only, and
  the failure of a chained \<^verbatim>\<open>.get\<close> on a value that is not an object is an
  \<^verbatim>\<open>AttributeError\<close>: for a payload received with status 200 whose
  \<^verbatim>\<open>FlightStatusResource\<close> is \<open>None\<close>, both operations raise it.
\<close>

theorem parse_failure_reaches_caller:
  "token_obtained (env_ok null_resource) client0
   \<and> ok_reply (data_reply (env_ok null_resource)) null_resource
   \<and> result_of (get_flight_status R0 (env_ok null_resource) client0 ''LH456'' ''2026-02-28'') =
        Inl attribute_error_none
   \<and> result_of (get_flight_status_by_route R0 (env_ok null_resource) client0 ''HAM'' ''JFK'' ''2026-02-28'') =
        Inl attribute_error_none"
proof -
  have "parse_flight_status R0 null_resource = Inl attribute_error_none"
    by (simp add: parse_flight_status_def parse_flight_status_try_def null_resource_def
        py_get2_def no_get_def attribute_error_none_def)
  moreover have "parse_route_flights R0 null_resource = Inl attribute_error_none"
    by (simp add: parse_route_flights_def parse_route_flights_try_def null_resource_def
        py_get2_def no_get_def attribute_error_none_def)
  ultimately show ?thesis
    by (simp add: get_flight_status_ok [OF token_obtained_env_ok ok_reply_env_ok]
        get_flight_status_by_route_ok [OF token_obtained_env_ok ok_reply_env_ok]
        token_obtained_env_ok ok_reply_env_ok on_404_def attribute_error_none_def)
qed


subsection \<open>A single flight and a list of one flight\<close>

text \<open>
  C7, as the claim states it, fails in two ways. The empty object is a flight object that
  is false for Python: as the value of the field it is taken for missing data, while in a
  list it is parsed. And a flight whose parsing raises a caught \<^verbatim>\<open>TypeError\<close> gives two
  results that differ under \<open>raw\<close>, where each holds its own payload.
\<close>

theorem single_flight_as_list_counterexample:
  "flight_field (with_flight (JObj [])) = Some (JObj [])
   \<and> flight_field (with_flight (JList [JObj []])) = Some (JList [JObj []])
   \<and> result_of (get_flight_status R0 (env_ok (with_flight (JObj []))) client0 ''LH456'' ''2026-02-28'') =
        Inr (JObj [(''error'', JStr ''No flight data in response'')])
   \<and> result_of (get_flight_status R0 (env_ok (with_flight (JList [JObj []]))) client0 ''LH456'' ''2026-02-28'') =
        Inr empty_flight_result
   \<and> empty_flight_result \<noteq> JObj [(''error'', JStr ''No flight data in response'')]
   \<and> result_of (get_flight_status_by_route R0 (env_ok (with_flight (JObj []))) client0
          ''HAM'' ''JFK'' ''2026-02-28'') =
        Inr (JObj [(''flights'', JList []), (''count'', JInt 0)])
   \<and> result_of (get_flight_status_by_route R0 (env_ok (with_flight (JList [JObj []]))) client0
          ''HAM'' ''JFK'' ''2026-02-28'') =
        Inr (JObj [(''flights'', JList [empty_route_entry]), (''count'', JInt 1)])
   \<and> result_of (get_flight_status R0 (env_ok (with_flight bad_code_flight)) client0 ''LH456'' ''2026-02-28'') =
        Inr (JObj [(''error'', JStr (''Failed to parse flight status: '' @ unhashable_list_text)),
                   (''raw'', with_flight bad_code_flight)])
   \<and> result_of (get_flight_status R0 (env_ok (with_flight (JList [bad_code_flight]))) client0
          ''LH456'' ''2026-02-28'') =
        Inr (JObj [(''error'', JStr (''Failed to parse flight status: '' @ unhashable_list_text)),
                   (''raw'', with_flight (JList [bad_code_flight]))])
   \<and> with_flight bad_code_flight \<noteq> with_flight (JList [bad_code_flight])"
proof -
  have ne: "empty_flight_result \<noteq> JObj [(''error'', JStr ''No flight data in response'')]"
    by (simp add: empty_flight_result_def)
  have ne2: "with_flight bad_code_flight \<noteq> with_flight (JList [bad_code_flight])"
    by (simp add: with_flight_def bad_code_flight_def bad_code_fields_def)
  show ?thesis
    using ne ne2
    by (simp add: get_flight_status_ok [OF token_obtained_env_ok ok_reply_env_ok]
        get_flight_status_by_route_ok [OF token_obtained_env_ok ok_reply_env_ok]
        flight_field_with_flight parse_flight_status_def parse_route_flights_eq_try
        flight_field_try flight_field_route_try first_flight_def as_flight_list_def
        empty_flight_fields empty_flight_entry bad_code_try bad_code_list_try)
qed

text \<open>
  C7, amended. For every flight object that is not empty, take a payload whose field
  \<^verbatim>\<open>FlightStatusResource.Flights.Flight\<close> is that object and one where it is the list of
  that one object, both received with a status from 200 to 299. Then
  \<^verbatim>\<open>get_flight_status\<close> gives the same result for both (the same value or the same
  exception), unless parsing raises an exception the parser catches: then both results
  hold the same text under \<open>error\<close> and each its own payload under \<open>raw\<close>. And
  \<^verbatim>\<open>get_flight_status_by_route\<close> gives the same result for both.
\<close>

theorem single_flight_as_list:
  assumes "kvs \<noteq> []"
    and "flight_field r1 = Some (JObj kvs)" and "flight_field r2 = Some (JList [JObj kvs])"
    and "token_obtained env1 st" and "ok_reply (data_reply env1) r1"
    and "token_obtained env2 st" and "ok_reply (data_reply env2) r2"
  shows "((\<forall>e. parse_flight_status_try R r1 = Inl e \<longrightarrow> parse_error_text e = None) \<longrightarrow>
            result_of (get_flight_status R env1 st flight_number date) =
            result_of (get_flight_status R env2 st flight_number date))
       \<and> (parse_flight_status_try R r1 = Inl e \<and> parse_error_text e = Some m \<longrightarrow>
            result_of (get_flight_status R env1 st flight_number date) =
              Inr (JObj [(''error'', JStr (''Failed to parse flight status: '' @ m)), (''raw'', r1)])
          \<and> result_of (get_flight_status R env2 st flight_number date) =
              Inr (JObj [(''error'', JStr (''Failed to parse flight status: '' @ m)), (''raw'', r2)]))
       \<and> result_of (get_flight_status_by_route R env1 st origin destination date) =
         result_of (get_flight_status_by_route R env2 st origin destination date)"
proof -
  have same: "parse_flight_status_try R r2 = parse_flight_status_try R r1"
    using assms(1-3) by (simp add: single_flight_try)
  have a: "parse_flight_status R r1 = parse_flight_status R r2"
    if "\<forall>e. parse_flight_status_try R r1 = Inl e \<longrightarrow> parse_error_text e = None"
    using that same
    by (cases "parse_flight_status_try R r1") (simp_all add: parse_flight_status_def)
  have b: "parse_flight_status R r =
      Inr (JObj [(''error'', JStr (''Failed to parse flight status: '' @ m)), (''raw'', r)])"
    if "parse_flight_status_try R r = Inl e" and "parse_error_text e = Some m" for r
    using that by (simp add: parse_flight_status_def)
  have c: "parse_route_flights R r1 = parse_route_flights R r2"
    using assms(1-3) by (rule single_flight_route)
  show ?thesis
    using a b [of r1] b [of r2] c same
    by (simp add: get_flight_status_ok [OF assms(4,5)] get_flight_status_ok [OF assms(6,7)]
        get_flight_status_by_route_ok [OF assms(4,5)] get_flight_status_by_route_ok [OF assms(6,7)])
qed

theorem single_flight_as_list_witness:
  "sample_fields \<noteq> []
   \<and> flight_field (with_flight (JObj sample_fields)) = Some (JObj sample_fields)
   \<and> flight_field (with_flight (JList [JObj sample_fields])) = Some (JList [JObj sample_fields])
   \<and> token_obtained (env_ok (with_flight (JObj sample_fields))) client0
   \<and> ok_reply (data_reply (env_ok (with_flight (JObj sample_fields)))) (with_flight (JObj sample_fields))
   \<and> token_obtained (env_ok (with_flight (JList [JObj sample_fields]))) client0
   \<and> ok_reply (data_reply (env_ok (with_flight (JList [JObj sample_fields]))))
         (with_flight (JList [JObj sample_fields]))
   \<and> parse_flight_status_try R0 (with_flight (JObj sample_fields)) = Inr sample_flight_result
   \<and> result_of (get_flight_status R0 (env_ok (with_flight (JObj sample_fields))) client0 ''LH456'' ''2026-02-28'') =
       Inr sample_flight_result
   \<and> result_of (get_flight_status R0 (env_ok (with_flight (JList [JObj sample_fields]))) client0
         ''LH456'' ''2026-02-28'') =
       Inr sample_flight_result
   \<and> result_of (get_flight_status_by_route R0 (env_ok (with_flight (JObj sample_fields))) client0
         ''HAM'' ''JFK'' ''2026-02-28'') =
       Inr (JObj [(''flights'', JList [sample_route_entry]), (''count'', JInt 1)])
   \<and> result_of (get_flight_status_by_route R0 (env_ok (with_flight (JList [JObj sample_fields]))) client0
         ''HAM'' ''JFK'' ''2026-02-28'') =
       Inr (JObj [(''flights'', JList [sample_route_entry]), (''count'', JInt 1)])
   \<and> bad_code_fields \<noteq> []
   \<and> parse_flight_status_try R0 (with_flight bad_code_flight) = Inl (TypeError unhashable_list_text)
   \<and> parse_error_text (TypeError unhashable_list_text) = Some unhashable_list_text
   \<and> result_of (get_flight_status R0 (env_ok (with_flight bad_code_flight)) client0 ''LH456'' ''2026-02-28'') =
       Inr (JObj [(''error'', JStr (''Failed to parse flight status: '' @ unhashable_list_text)),
                  (''raw'', with_flight bad_code_flight)])
   \<and> result_of (get_flight_status R0 (env_ok (with_flight (JList [bad_code_flight]))) client0
         ''LH456'' ''2026-02-28'') =
       Inr (JObj [(''error'', JStr (''Failed to parse flight status: '' @ unhashable_list_text)),
                  (''raw'', with_flight (JList [bad_code_flight]))])"
proof -
  let ?r1 = "with_flight (JObj sample_fields)"
  let ?r2 = "with_flight (JList [JObj sample_fields])"
  have h1: "sample_fields \<noteq> []" by (simp add: sample_fields_def)
  have h2: "flight_field ?r1 = Some (JObj sample_fields)" by (rule flight_field_with_flight)
  have h3: "flight_field ?r2 = Some (JList [JObj sample_fields])" by (rule flight_field_with_flight)
  have h4: "token_obtained (env_ok ?r1) client0" by (rule token_obtained_env_ok)
  have h5: "ok_reply (data_reply (env_ok ?r1)) ?r1" by (rule ok_reply_env_ok)
  have h6: "token_obtained (env_ok ?r2) client0" by (rule token_obtained_env_ok)
  have h7: "ok_reply (data_reply (env_ok ?r2)) ?r2" by (rule ok_reply_env_ok)
  have t: "parse_flight_status_try R0 ?r1 = Inr sample_flight_result"
    using h1 by (simp add: flight_field_try [OF h2] first_flight_def sample_flight_fields)
  have g: "result_of (get_flight_status R0 (env_ok ?r1) client0 ''LH456'' ''2026-02-28'') = Inr sample_flight_result"
    using t by (simp add: get_flight_status_ok [OF h4 h5] parse_flight_status_def)
  have r: "result_of (get_flight_status_by_route R0 (env_ok ?r1) client0 ''HAM'' ''JFK'' ''2026-02-28'') =
      Inr (JObj [(''flights'', JList [sample_route_entry]), (''count'', JInt 1)])"
    using h1
    by (simp add: get_flight_status_by_route_ok [OF h4 h5] parse_route_flights_eq_try
        flight_field_route_try [OF h2] as_flight_list_def sample_flight_entry)
  have nc: "\<forall>e. parse_flight_status_try R0 ?r1 = Inl e \<longrightarrow> parse_error_text e = None"
    using t by simp
  note main = single_flight_as_list [OF h1 h2 h3 h4 h5 h6 h7, where R = R0 and flight_number = "''LH456''"
      and date = "''2026-02-28''" and origin = "''HAM''" and destination = "''JFK''"]
  from main nc g
  have g2: "result_of (get_flight_status R0 (env_ok ?r2) client0 ''LH456'' ''2026-02-28'') = Inr sample_flight_result"
    by simp
  from main r
  have r2: "result_of (get_flight_status_by_route R0 (env_ok ?r2) client0 ''HAM'' ''JFK'' ''2026-02-28'') =
      Inr (JObj [(''flights'', JList [sample_route_entry]), (''count'', JInt 1)])"
    by simp
  let ?b1 = "with_flight bad_code_flight"
  let ?b2 = "with_flight (JList [bad_code_flight])"
  have k1: "bad_code_fields \<noteq> []" by (simp add: bad_code_fields_def)
  have k2: "flight_field ?b1 = Some (JObj bad_code_fields)"
    by (simp add: flight_field_with_flight bad_code_flight_def)
  have k3: "flight_field ?b2 = Some (JList [JObj bad_code_fields])"
    by (simp add: flight_field_with_flight bad_code_flight_def)
  have k4: "token_obtained (env_ok ?b1) client0" by (rule token_obtained_env_ok)
  have k5: "ok_reply (data_reply (env_ok ?b1)) ?b1" by (rule ok_reply_env_ok)
  have k6: "token_obtained (env_ok ?b2) client0" by (rule token_obtained_env_ok)
  have k7: "ok_reply (data_reply (env_ok ?b2)) ?b2" by (rule ok_reply_env_ok)
  have k8: "parse_flight_status_try R0 ?b1 = Inl (TypeError unhashable_list_text)" by (rule bad_code_try)
  have k9: "parse_error_text (TypeError unhashable_list_text) = Some unhashable_list_text" by simp
  from single_flight_as_list [OF k1 k2 k3 k4 k5 k6 k7, where R = R0 and e = "TypeError unhashable_list_text"
      and m = unhashable_list_text and flight_number = "''LH456''" and date = "''2026-02-28''"] k8 k9
  have b: "result_of (get_flight_status R0 (env_ok ?b1) client0 ''LH456'' ''2026-02-28'') =
        Inr (JObj [(''error'', JStr (''Failed to parse flight status: '' @ unhashable_list_text)), (''raw'', ?b1)])
      \<and> result_of (get_flight_status R0 (env_ok ?b2) client0 ''LH456'' ''2026-02-28'') =
        Inr (JObj [(''error'', JStr (''Failed to parse flight status: '' @ unhashable_list_text)), (''raw'', ?b2)])"
    by blast
  from h1 h2 h3 h4 h5 h6 h7 t g g2 r r2 k1 k8 k9 b show ?thesis by blast
qed

end
